theory Spec2Isabelle
  imports Complex_Main "HOL-Library.Code_Target_Nat"
begin

section \<open>JavaScript strings\<close>

text \<open>
  A JavaScript string is a sequence of UTF-16 code units; \<open>length\<close>, \<open>split\<close>,
  \<open>includes\<close> and a regular expression without the \<open>u\<close> flag all work on code units.
  A code unit is modelled by its number, a string by the list of its code units.
  \<open>str\<close> turns an ASCII literal into such a string.
\<close>

type_synonym code_unit = nat
type_synonym jsstring = "code_unit list"

definition str :: "string \<Rightarrow> jsstring" where
  "str s = map of_char s"

text \<open>
  The white space of \<open>String.prototype.trim\<close> and of the class \<open>\s\<close>: the
  ECMAScript WhiteSpace and LineTerminator code points (TAB, LF, VT, FF, CR, SP, NBSP,
  U+1680, U+2000..U+200A, LS, PS, U+202F, U+205F, U+3000, U+FEFF).
\<close>

definition is_ws :: "code_unit \<Rightarrow> bool" where
  "is_ws c = (c = 9 \<or> c = 10 \<or> c = 11 \<or> c = 12 \<or> c = 13 \<or> c = 32 \<or> c = 160 \<or> c = 5760
     \<or> (8192 \<le> c \<and> c \<le> 8202) \<or> c = 8232 \<or> c = 8233 \<or> c = 8239 \<or> c = 8287
     \<or> c = 12288 \<or> c = 65279)"

definition is_digit :: "code_unit \<Rightarrow> bool" where
  "is_digit c = (48 \<le> c \<and> c \<le> 57)"

definition is_lower :: "code_unit \<Rightarrow> bool" where
  "is_lower c = (97 \<le> c \<and> c \<le> 122)"

definition is_upper :: "code_unit \<Rightarrow> bool" where
  "is_upper c = (65 \<le> c \<and> c \<le> 90)"

definition is_ascii :: "code_unit \<Rightarrow> bool" where
  "is_ascii c = (c < 128)"

definition trim :: "jsstring \<Rightarrow> jsstring" where
  "trim s = rev (dropWhile is_ws (rev (dropWhile is_ws s)))"

text \<open>
  \<open>s.startsWith(w)\<close>, \<open>s.endsWith(w)\<close> and \<open>s.includes(w)\<close>: \<open>w\<close> occurs at the
  start, at the end, somewhere in \<open>s\<close>.
\<close>

definition startsWith :: "jsstring \<Rightarrow> jsstring \<Rightarrow> bool" where
  "startsWith s w = (take (length w) s = w)"

definition endsWith :: "jsstring \<Rightarrow> jsstring \<Rightarrow> bool" where
  "endsWith s w = startsWith (rev s) (rev w)"

fun str_includes :: "jsstring \<Rightarrow> jsstring \<Rightarrow> bool" where
  "str_includes [] w = (w = [])"
| "str_includes (c # cs) w = (startsWith (c # cs) w \<or> str_includes cs w)"

text \<open>
  \<open>s.split(/[sep]+/)\<close> for a character class \<open>sep\<close>: the scan collects the piece in
  \<open>acc\<close>; at a separator it closes the piece and skips the whole run of separators; the
  rest after the last run is the last piece (the empty string when the text ends with a
  separator, or is empty).
\<close>

function split_acc :: "(code_unit \<Rightarrow> bool) \<Rightarrow> jsstring \<Rightarrow> jsstring \<Rightarrow> jsstring list" where
  "split_acc sep acc [] = [rev acc]"
| "split_acc sep acc (c # cs) =
     (if sep c then rev acc # split_acc sep [] (dropWhile sep cs)
      else split_acc sep (c # acc) cs)"
  by pat_completeness auto
termination
  by (relation "measure (\<lambda>(sep, acc, s). length s)")
     (auto simp: length_dropWhile_le less_Suc_eq_le)

definition split_ws :: "jsstring \<Rightarrow> jsstring list" where
  "split_ws s = split_acc is_ws [] s"

text \<open>
  \<open>String.prototype.toLowerCase\<close> follows the Unicode case mappings, which are part of
  the JavaScript engine. On a string of ASCII code units it maps \<open>A..Z\<close> to \<open>a..z\<close>
  and leaves the rest; on any other string the result is the engine's, and the engine's
  function is the parameter \<open>lc\<close>.
\<close>

definition ascii_lower :: "code_unit \<Rightarrow> code_unit" where
  "ascii_lower c = (if is_upper c then c + 32 else c)"

definition toLowerCase :: "(jsstring \<Rightarrow> jsstring) \<Rightarrow> jsstring \<Rightarrow> jsstring" where
  "toLowerCase lc s = (if list_all is_ascii s then map ascii_lower s else lc s)"

section \<open>The content validator\<close>

text \<open>
  \<open>isValidTextContent\<close> (the file-analysis route). The character class of the first
  regular expression is \<open>[a-zA-Z0-9\s.,!?;:'"()\-\n\r\t]\<close>.
\<close>

definition is_readable :: "code_unit \<Rightarrow> bool" where
  "is_readable c = (is_lower c \<or> is_upper c \<or> is_digit c \<or> is_ws c
     \<or> c \<in> set (str ''.,!?;:'') \<or> c = 39 \<or> c = 34 \<or> c \<in> set (str ''()-''))"

definition readableChars :: "jsstring \<Rightarrow> nat" where
  "readableChars text = length (filter is_readable text)"

text \<open>
  The classes \<open>[0-9a-f]\<close>, \<open>[a-z0-9_]\<close>, \<open>[aeiou]\<close> and \<open>[0-9]\<close> of the word filter.
\<close>

definition is_hex :: "code_unit \<Rightarrow> bool" where
  "is_hex c = (is_digit c \<or> (97 \<le> c \<and> c \<le> 102))"

definition is_lower_alnum :: "code_unit \<Rightarrow> bool" where
  "is_lower_alnum c = (is_lower c \<or> is_digit c \<or> c = 95)"

definition is_vowel :: "code_unit \<Rightarrow> bool" where
  "is_vowel c = (c \<in> set (str ''aeiou''))"

text \<open>
  The predicate of \<open>words.filter\<close>: \<open>/^[0-9a-f]{8,}$/\<close> and \<open>/^[a-z0-9_]{8,}$/\<close> match a
  whole word of at least eight characters of the class, \<open>/[aeiou]/\<close> a word with a vowel
  anywhere, \<open>/^[0-9]+$/\<close> a non-empty word of digits.
\<close>

definition meaningful :: "jsstring \<Rightarrow> bool" where
  "meaningful word =
     (length word \<ge> 3 \<and>
      length word \<le> 20 \<and>
      \<not> (8 \<le> length word \<and> list_all is_hex word) \<and>
      \<not> (8 \<le> length word \<and> list_all is_lower_alnum word) \<and>
      list_ex is_vowel word \<and>
      \<not> (1 \<le> length word \<and> list_all is_digit word))"

definition words_of :: "(jsstring \<Rightarrow> jsstring) \<Rightarrow> jsstring \<Rightarrow> jsstring list" where
  "words_of lc text = split_ws (toLowerCase lc text)"

definition meaningfulWords :: "(jsstring \<Rightarrow> jsstring) \<Rightarrow> jsstring \<Rightarrow> jsstring list" where
  "meaningfulWords lc text = filter meaningful (words_of lc text)"

definition commonWords :: "jsstring list" where
  "commonWords = map str
     [''the'', ''and'', ''or'', ''but'', ''in'', ''on'', ''at'', ''to'', ''for'', ''of'',
      ''with'', ''by'', ''is'', ''are'', ''was'', ''were'', ''be'', ''been'', ''have'',
      ''has'', ''had'', ''do'', ''does'', ''did'', ''will'', ''would'', ''could'',
      ''should'', ''this'', ''that'', ''these'', ''those'', ''a'', ''an'']"

definition hasCommonWords :: "(jsstring \<Rightarrow> jsstring) \<Rightarrow> jsstring \<Rightarrow> bool" where
  "hasCommonWords lc text = list_ex (\<lambda>word. str_includes (toLowerCase lc text) word) commonWords"

text \<open>
  The two ratios are quotients of lengths compared with \<open>0.7\<close> and \<open>0.3\<close>. A string has
  fewer than \<open>2^30\<close> code units, so the quotient of two lengths that is below \<open>7/10\<close>
  (or \<open>3/10\<close>) is below it by more than the rounding of a double, and the comparison of
  the doubles is the comparison of the fractions: \<open>a / b < p / q\<close> is
  \<open>a * q < p * b\<close> (also for \<open>b = 0\<close>, where the quotient \<open>0 / 0\<close> is NaN and the
  comparison false).
\<close>

definition ratio_below :: "nat \<Rightarrow> nat \<Rightarrow> nat \<Rightarrow> nat \<Rightarrow> bool" where
  "ratio_below a b p q = (a * q < p * b)"

text \<open>
  The validator returns \<open>false\<close> at four places, three of them after a line on the
  console that names the check. \<open>validation\<close> is the body of the function with the
  place it returns at; \<open>isValidTextContent\<close> is the boolean it returns.
\<close>

datatype verdict = TooShort | LowReadableRatio | LowMeaningfulRatio | NoCommonWords | Passed

definition validation :: "(jsstring \<Rightarrow> jsstring) \<Rightarrow> jsstring \<Rightarrow> verdict" where
  "validation lc text =
     (if text = [] \<or> length (trim text) < 100 then TooShort
      else if ratio_below (readableChars text) (length text) 7 10 then LowReadableRatio
      else if ratio_below (length (meaningfulWords lc text))
                (max (length (words_of lc text)) 1) 3 10 then LowMeaningfulRatio
      else if \<not> hasCommonWords lc text then NoCommonWords
      else Passed)"

definition isValidTextContent :: "(jsstring \<Rightarrow> jsstring) \<Rightarrow> jsstring \<Rightarrow> bool" where
  "isValidTextContent lc text = (validation lc text = Passed)"

subsection \<open>The four checks as the specification words them\<close>

text \<open>
  The checks of the specification's algorithm, each as one condition on the text: the
  trimmed length, the share of readable characters, the share of meaningful words, the
  presence of a common word as a substring of the lower-cased text. The specification
  takes the words of the third check from the text; the code takes them from the
  lower-cased text. \<open>check_meaningful_stated\<close> is the check on the words of the text
  itself, \<open>check_meaningful\<close> the check on the words of the lower-cased text.
\<close>

definition check_length :: "jsstring \<Rightarrow> bool" where
  "check_length text = (100 \<le> length (trim text))"

definition check_readable :: "jsstring \<Rightarrow> bool" where
  "check_readable text = (7 / 10 \<le> real (readableChars text) / real (length text))"

definition share_meaningful :: "jsstring list \<Rightarrow> real" where
  "share_meaningful ws = real (length (filter meaningful ws)) / real (length ws)"

definition check_meaningful :: "(jsstring \<Rightarrow> jsstring) \<Rightarrow> jsstring \<Rightarrow> bool" where
  "check_meaningful lc text = (3 / 10 \<le> share_meaningful (split_ws (toLowerCase lc text)))"

definition check_meaningful_stated :: "jsstring \<Rightarrow> bool" where
  "check_meaningful_stated text = (3 / 10 \<le> share_meaningful (split_ws text))"

definition check_common :: "(jsstring \<Rightarrow> jsstring) \<Rightarrow> jsstring \<Rightarrow> bool" where
  "check_common lc text = (\<exists>w \<in> set commonWords. \<exists>p q. toLowerCase lc text = p @ w @ q)"

text \<open>
  A common-word check by tokens, for comparison: some whitespace-delimited word of the
  lower-cased text is one of the common words.
\<close>

definition hasCommonWordsTokenized :: "(jsstring \<Rightarrow> jsstring) \<Rightarrow> jsstring \<Rightarrow> bool" where
  "hasCommonWordsTokenized lc text = list_ex (\<lambda>w. w \<in> set commonWords) (words_of lc text)"

text \<open>
  A hex-like token is made of the characters \<open>0-9\<close>, \<open>a-f\<close> and \<open>A-F\<close>.
\<close>

definition is_hex_like :: "code_unit \<Rightarrow> bool" where
  "is_hex_like c = (is_digit c \<or> (97 \<le> c \<and> c \<le> 102) \<or> (65 \<le> c \<and> c \<le> 70))"

subsection \<open>Sample texts\<close>

definition hex_token :: jsstring where
  "hex_token = str ''a1b2c3d4a1b2c3d4''"

definition hex_text :: jsstring where
  "hex_text = concat (replicate 7 hex_token)"

definition capitalised_text :: jsstring where
  "capitalised_text = str
     (''Programming Languages Documents Repository Programming Languages '' @
      ''Documents Repository Programming Languages Documents Repository'')"

definition cat_text :: jsstring where
  "cat_text = concat (replicate 30 (str ''cat dog ''))"

section \<open>JavaScript values\<close>

text \<open>
  The values the routes handle beyond strings are the results of \<open>response.json()\<close>
  and \<open>JSON.parse\<close>, and \<open>undefined\<close> for a property that is not there. A number is
  a double that JSON can denote: a rational or an infinity (\<open>1e999\<close>), never NaN. An
  object is the list of its members in source order.
\<close>

datatype jsnum = Num rat | PosInfinity | NegInfinity

datatype jsval =
    JUndefined
  | JNull
  | JBool bool
  | JNum jsnum
  | JStr jsstring
  | JArr "jsval list"
  | JObj "(jsstring \<times> jsval) list"

text \<open>
  What an exception carries: an \<open>Error\<close> object made by the code with its message, a
  \<open>TypeError\<close> raised by the engine (a property read from \<open>undefined\<close> or \<open>null\<close>, a
  call of something that is no function, a rejected \<open>fetch\<close>), the \<open>SyntaxError\<close> of a
  body that is no JSON, or any other value a callee rejects with.
\<close>

datatype exn = Error jsstring | TypeError | SyntaxError | NotAnError

datatype 'a attempt = Throws exn | Returns 'a

text \<open>
  The functions of the JavaScript engine and of Node that the code calls and the
  repository does not contain: \<open>toLowerCase\<close> beyond ASCII, \<open>JSON.parse\<close> (\<open>None\<close> when
  it throws), the conversion \<open>ToNumber\<close> of a string, array or object (\<open>None\<close> for NaN
  and when the conversion throws), \<open>Buffer.from(v, 'base64').toString('utf-8')\<close> for a
  string, array or object (\<open>None\<close> when \<open>Buffer.from\<close> throws), and the message of the
  TypeError for the call \<open>content.substring(0, 300)\<close> on a value without that method.
\<close>

record runtime =
  lower :: "jsstring \<Rightarrow> jsstring"
  json_parse :: "jsstring \<Rightarrow> jsval option"
  to_number :: "jsval \<Rightarrow> jsnum option"
  base64_utf8 :: "jsval \<Rightarrow> jsstring option"
  substring_error :: jsstring

text \<open>Truthiness, as \<open>!x\<close>, \<open>x || y\<close> and \<open>x && y\<close> test it.\<close>

fun truthy :: "jsval \<Rightarrow> bool" where
  "truthy JUndefined = False"
| "truthy JNull = False"
| "truthy (JBool b) = b"
| "truthy (JNum n) = (n \<noteq> Num 0)"
| "truthy (JStr s) = (s \<noteq> [])"
| "truthy (JArr xs) = True"
| "truthy (JObj kv) = True"

text \<open>
  The conversion to a string, as a template literal and \<open>join\<close> apply it, throws a
  TypeError for a parsed object with a member \<open>toString\<close> (no member of a parsed
  object is a function, and \<open>valueOf\<close> gives back the object), and for an array with
  an element for which it throws; \<open>join\<close> takes \<open>null\<close> and \<open>undefined\<close> as the empty
  string. Every other value has a string.
\<close>

fun to_string_throws :: "jsval \<Rightarrow> bool" where
  "to_string_throws (JObj kv) = list_ex (\<lambda>kv. fst kv = str ''toString'') kv"
| "to_string_throws (JArr xs) = list_ex to_string_throws xs"
| "to_string_throws v = False"

definition or_else :: "jsval \<Rightarrow> jsval \<Rightarrow> jsval" where
  "or_else x y = (if truthy x then x else y)"

text \<open>
  A member of a parsed object: \<open>JSON.parse\<close> keeps the last of two members with one key.
\<close>

definition member_of :: "(jsstring \<times> jsval) list \<Rightarrow> jsstring \<Rightarrow> jsval" where
  "member_of kv k = (case map_of (rev kv) k of None \<Rightarrow> JUndefined | Some v \<Rightarrow> v)"

text \<open>
  The property read \<open>v.k\<close> or \<open>v[0]\<close>, \<open>None\<close> when it throws a TypeError. The code
  reads the properties \<open>0\<close>, \<open>length\<close> and the member names of the upstream objects;
  of these a string and an array have \<open>length\<close> and \<open>0\<close>, a number and a boolean none.
\<close>

fun get_prop :: "jsval \<Rightarrow> jsstring \<Rightarrow> jsval option" where
  "get_prop JUndefined k = None"
| "get_prop JNull k = None"
| "get_prop (JBool b) k = Some JUndefined"
| "get_prop (JNum n) k = Some JUndefined"
| "get_prop (JStr s) k =
     Some (if k = str ''length'' then JNum (Num (of_nat (length s)))
           else if k = str ''0'' then (case s of [] \<Rightarrow> JUndefined | c # _ \<Rightarrow> JStr [c])
           else JUndefined)"
| "get_prop (JArr xs) k =
     Some (if k = str ''length'' then JNum (Num (of_nat (length xs)))
           else if k = str ''0'' then (case xs of [] \<Rightarrow> JUndefined | x # _ \<Rightarrow> x)
           else JUndefined)"
| "get_prop (JObj kv) k = Some (member_of kv k)"

text \<open>
  The comparisons \<open>v > n\<close> and \<open>v >= n\<close> with a number literal convert \<open>v\<close> to a number;
  with NaN both are false.
\<close>

fun num_of :: "runtime \<Rightarrow> jsval \<Rightarrow> jsnum option" where
  "num_of rt JUndefined = None"
| "num_of rt JNull = Some (Num 0)"
| "num_of rt (JBool b) = Some (Num (if b then 1 else 0))"
| "num_of rt (JNum n) = Some n"
| "num_of rt v = to_number rt v"

fun num_gt :: "jsnum \<Rightarrow> nat \<Rightarrow> bool" where
  "num_gt (Num r) n = (of_nat n < r)"
| "num_gt PosInfinity n = True"
| "num_gt NegInfinity n = False"

fun num_ge :: "jsnum \<Rightarrow> nat \<Rightarrow> bool" where
  "num_ge (Num r) n = (of_nat n \<le> r)"
| "num_ge PosInfinity n = True"
| "num_ge NegInfinity n = False"

definition js_gt :: "runtime \<Rightarrow> jsval \<Rightarrow> nat \<Rightarrow> bool" where
  "js_gt rt v n = (case num_of rt v of None \<Rightarrow> False | Some x \<Rightarrow> num_gt x n)"

definition js_ge :: "runtime \<Rightarrow> jsval \<Rightarrow> nat \<Rightarrow> bool" where
  "js_ge rt v n = (case num_of rt v of None \<Rightarrow> False | Some x \<Rightarrow> num_ge x n)"

text \<open>The decimal digits of a number in a template literal, and \<open>xs.join(sep)\<close>.\<close>

function show_nat :: "nat \<Rightarrow> jsstring" where
  "show_nat n = (if n < 10 then [48 + n] else show_nat (n div 10) @ [48 + n mod 10])"
  by pat_completeness auto
termination
  by (relation "measure id") auto

fun join_with :: "jsstring \<Rightarrow> jsstring list \<Rightarrow> jsstring" where
  "join_with sep [] = []"
| "join_with sep [x] = x"
| "join_with sep (x # y # ys) = x @ sep @ join_with sep (y # ys)"

section \<open>The document analysis\<close>

subsection \<open>Statistics of the content\<close>

text \<open>
  \<open>generateEnhancedFileAnalysis\<close> first computes, from the content alone: the number of
  non-empty whitespace-split words; the sentences (pieces between runs of \<open>.!?\<close> whose
  trimmed length exceeds 10); the paragraphs (pieces between matches of \<open>/\n\s*\n/\<close>
  whose trimmed length exceeds 20); whether a code keyword occurs; whether a technical
  term occurs between word boundaries, case-insensitively; and the topics.
\<close>

definition wordCount_of :: "jsstring \<Rightarrow> nat" where
  "wordCount_of content = length (filter (\<lambda>word. length word > 0) (split_ws content))"

definition sentences :: "jsstring \<Rightarrow> jsstring list" where
  "sentences content =
     filter (\<lambda>s. length (trim s) > 10) (split_acc (\<lambda>c. c \<in> set (str ''.!?'')) [] content)"

text \<open>
  A match of \<open>/\n\s*\n/\<close> starts at a line feed that has another line feed in the
  white space after it, and ends with the last line feed of that white space.
\<close>

function split_paragraphs :: "jsstring \<Rightarrow> jsstring \<Rightarrow> jsstring list" where
  "split_paragraphs acc [] = [rev acc]"
| "split_paragraphs acc (c # cs) =
     (if c = 10 \<and> 10 \<in> set (takeWhile is_ws cs)
      then rev acc #
        split_paragraphs []
          (drop (length (dropWhile (\<lambda>x. x \<noteq> 10) (rev (takeWhile is_ws cs)))) cs)
      else split_paragraphs (c # acc) cs)"
  by pat_completeness auto
termination
  by (relation "measure (\<lambda>(acc, s). length s)") auto

definition paragraphs :: "jsstring \<Rightarrow> jsstring list" where
  "paragraphs content = filter (\<lambda>p. length (trim p) > 20) (split_paragraphs [] content)"

text \<open>
  \<open>hasCode\<close>: the alternatives of the regular expression are twelve literals (the first
  is three backquotes) and \<open>if\<close>, \<open>for\<close>, \<open>while\<close> followed by white space and an
  opening parenthesis.
\<close>

fun anywhere :: "(jsstring \<Rightarrow> bool) \<Rightarrow> jsstring \<Rightarrow> bool" where
  "anywhere P [] = P []"
| "anywhere P (c # cs) = (P (c # cs) \<or> anywhere P cs)"

definition keyword_paren :: "jsstring \<Rightarrow> jsstring \<Rightarrow> bool" where
  "keyword_paren kw s =
     (startsWith s kw \<and>
      (case dropWhile is_ws (drop (length kw) s) of [] \<Rightarrow> False | c # _ \<Rightarrow> c = 40))"

definition hasCode_of :: "jsstring \<Rightarrow> bool" where
  "hasCode_of content =
     (list_ex (str_includes content)
        ([96, 96, 96] # map str
          [''function'', ''class'', ''import'', ''export'', ''const'', ''let'', ''var'',
           ''def'', ''public'', ''private'', ''return''])
      \<or> list_ex (\<lambda>kw. anywhere (keyword_paren kw) content)
           (map str [''if'', ''for'', ''while'']))"

text \<open>
  \<open>hasTechnicalTerms\<close>: \<open>/\b(API|database|...)\b/gi\<close>. A word character is one of
  \<open>[A-Za-z0-9_]\<close>; \<open>\b\<close> holds between a word character and none. With the flag
  \<open>i\<close> and no flag \<open>u\<close> a character of the text matches an ASCII character of the
  pattern when they are equal up to ASCII case.
\<close>

definition is_word_char :: "code_unit \<Rightarrow> bool" where
  "is_word_char c = (is_lower c \<or> is_upper c \<or> is_digit c \<or> c = 95)"

definition technicalTerms :: "jsstring list" where
  "technicalTerms = map str
     [''API'', ''database'', ''server'', ''client'', ''framework'', ''library'',
      ''algorithm'', ''data'', ''system'', ''application'', ''software'',
      ''technology'', ''programming'', ''development'', ''code'', ''function'',
      ''method'', ''class'', ''object'', ''variable'', ''parameter'', ''return'',
      ''execute'', ''implement'', ''configure'', ''install'', ''deploy'', ''debug'',
      ''test'', ''version'', ''update'', ''upgrade'', ''download'', ''upload'',
      ''interface'', ''protocol'', ''network'', ''security'', ''authentication'',
      ''authorization'', ''encryption'', ''decryption'', ''hash'', ''token'',
      ''session'', ''cookie'', ''cache'', ''storage'', ''memory'', ''processor'',
      ''CPU'', ''GPU'', ''RAM'', ''disk'', ''file'', ''directory'', ''folder'',
      ''path'', ''URL'', ''HTTP'', ''HTTPS'', ''SSL'', ''TLS'', ''TCP'', ''UDP'',
      ''IP'', ''DNS'', ''domain'', ''subdomain'', ''port'', ''firewall'', ''router'',
      ''switch'', ''gateway'', ''proxy'', ''load balancer'', ''container'', ''docker'',
      ''kubernetes'', ''cloud'', ''AWS'', ''Azure'', ''GCP'', ''Linux'', ''Windows'',
      ''macOS'', ''Ubuntu'', ''CentOS'', ''shell'', ''terminal'', ''command'',
      ''script'', ''batch'', ''PowerShell'', ''bash'', ''zsh'', ''git'', ''github'',
      ''gitlab'', ''bitbucket'', ''repository'', ''commit'', ''branch'', ''merge'',
      ''pull request'', ''issue'', ''bug'', ''feature'', ''release'', ''deployment'',
      ''CI/CD'', ''DevOps'', ''agile'', ''scrum'', ''kanban'', ''project management'',
      ''documentation'', ''README'', ''license'', ''open source'', ''proprietary'',
      ''commercial'', ''enterprise'', ''startup'', ''business'', ''marketing'',
      ''sales'', ''customer'', ''user'', ''client'', ''stakeholder'', ''requirement'',
      ''specification'', ''design'', ''architecture'', ''pattern'', ''model'',
      ''schema'', ''entity'', ''relationship'', ''query'', ''SQL'', ''NoSQL'',
      ''MongoDB'', ''PostgreSQL'', ''MySQL'', ''SQLite'', ''Redis'', ''Elasticsearch'',
      ''JSON'', ''XML'', ''YAML'', ''CSV'', ''REST'', ''GraphQL'', ''SOAP'',
      ''microservice'', ''monolith'', ''scalability'', ''performance'',
      ''optimization'', ''monitoring'', ''logging'', ''analytics'', ''metrics'',
      ''dashboard'', ''report'', ''visualization'', ''chart'', ''graph'', ''table'',
      ''list'', ''array'', ''object'', ''string'', ''number'', ''boolean'', ''null'',
      ''undefined'', ''true'', ''false'']"

definition word_boundary :: "code_unit option \<Rightarrow> jsstring \<Rightarrow> bool" where
  "word_boundary prev rest =
     ((case prev of None \<Rightarrow> False | Some p \<Rightarrow> is_word_char p) \<noteq>
      (case rest of [] \<Rightarrow> False | c # _ \<Rightarrow> is_word_char c))"

definition ci_startsWith :: "jsstring \<Rightarrow> jsstring \<Rightarrow> bool" where
  "ci_startsWith s w =
     (length w \<le> length s \<and> map ascii_lower (take (length w) s) = map ascii_lower w)"

definition term_at :: "code_unit option \<Rightarrow> jsstring \<Rightarrow> jsstring \<Rightarrow> bool" where
  "term_at prev s w =
     (word_boundary prev s \<and> ci_startsWith s w \<and>
      word_boundary (if w = [] then prev else Some (last (take (length w) s)))
        (drop (length w) s))"

fun scan_terms :: "jsstring list \<Rightarrow> code_unit option \<Rightarrow> jsstring \<Rightarrow> bool" where
  "scan_terms ws prev [] = list_ex (term_at prev []) ws"
| "scan_terms ws prev (c # cs) =
     (list_ex (term_at prev (c # cs)) ws \<or> scan_terms ws (Some c) cs)"

definition hasTechnicalTerms_of :: "jsstring \<Rightarrow> bool" where
  "hasTechnicalTerms_of content = scan_terms technicalTerms None content"

text \<open>
  The topics: the words of the lower-cased content whose word characters
  (\<open>word.replace(/[^\w]/g, '')\<close>) pass the filter are counted in a \<open>Map\<close>, which keeps
  the order of first insertion; the entries are sorted by falling count (the sort is
  stable), and of the first eight the words longer than three characters are kept.
\<close>

definition cleanWord :: "jsstring \<Rightarrow> jsstring" where
  "cleanWord word = filter is_word_char word"

definition stopWords :: "jsstring list" where
  "stopWords = map str
     [''this'', ''that'', ''these'', ''those'', ''with'', ''from'', ''they'', ''them'',
      ''their'', ''there'', ''where'', ''when'', ''what'', ''which'', ''will'',
      ''would'', ''could'', ''should'', ''might'', ''must'', ''shall'', ''can't'',
      ''won't'', ''don't'', ''didn't'', ''isn't'', ''aren't'', ''wasn't'', ''weren't'',
      ''haven't'', ''hasn't'', ''hadn't'']"

definition topicWord :: "jsstring \<Rightarrow> bool" where
  "topicWord word =
     (length (cleanWord word) \<ge> 4 \<and>
      length (cleanWord word) \<le> 20 \<and>
      \<not> (1 \<le> length (cleanWord word) \<and> list_all is_digit (cleanWord word)) \<and>
      \<not> (8 \<le> length (cleanWord word) \<and> list_all is_hex (cleanWord word)) \<and>
      list_ex is_vowel (cleanWord word) \<and>
      cleanWord word \<notin> set stopWords)"

fun bump :: "jsstring \<Rightarrow> (jsstring \<times> nat) list \<Rightarrow> (jsstring \<times> nat) list" where
  "bump w [] = [(w, 1)]"
| "bump w ((k, n) # kvs) = (if k = w then (k, n + 1) # kvs else (k, n) # bump w kvs)"

definition wordFreq :: "(jsstring \<Rightarrow> jsstring) \<Rightarrow> jsstring \<Rightarrow> (jsstring \<times> nat) list" where
  "wordFreq lc content =
     foldl (\<lambda>m word. bump (cleanWord word) m) []
       (filter topicWord (split_ws (toLowerCase lc content)))"

definition topTopics_of :: "(jsstring \<Rightarrow> jsstring) \<Rightarrow> jsstring \<Rightarrow> jsstring list" where
  "topTopics_of lc content =
     filter (\<lambda>word. length word > 3)
       (map fst (take 8 (sort_key (\<lambda>e. - int (snd e)) (wordFreq lc content))))"

record doc_stats =
  wordCount :: nat
  sentenceCount :: nat
  paragraphCount :: nat
  hasCode :: bool
  hasTechnicalTerms :: bool
  topTopics :: "jsstring list"

definition contentStats :: "(jsstring \<Rightarrow> jsstring) \<Rightarrow> jsstring \<Rightarrow> doc_stats" where
  "contentStats lc content =
     \<lparr>wordCount = wordCount_of content,
      sentenceCount = length (sentences content),
      paragraphCount = length (paragraphs content),
      hasCode = hasCode_of content,
      hasTechnicalTerms = hasTechnicalTerms_of content,
      topTopics = topTopics_of lc content\<rparr>"

subsection \<open>The fallback object\<close>

text \<open>
  \<open>topTopics[i] || dflt\<close>: the topic, or the default when there is none (or it is
  empty).
\<close>

definition topic_or :: "jsstring list \<Rightarrow> nat \<Rightarrow> jsstring \<Rightarrow> jsstring" where
  "topic_or ts i dflt = (if i < length ts \<and> ts ! i \<noteq> [] then ts ! i else dflt)"

definition fallback_summary :: "doc_stats \<Rightarrow> jsstring \<Rightarrow> jsstring" where
  "fallback_summary st extractionMethod =
     (str ''This document contains '' @
       show_nat (wordCount st) @
       str '' words across '' @
       show_nat (sentenceCount st) @
       str '' sentences and '' @
       show_nat (paragraphCount st) @
       str '' paragraphs. The content focuses on '' @
       join_with (str '', '') (take 3 (topTopics st)) @
       str '' and appears to be '' @
       (if hasTechnicalTerms st then str ''technical documentation or educational material''
        else str ''informational content'') @
       str ''. '' @
       (if hasCode st then str (''It includes code examples and technical implementations, '' @
                ''suggesting it's meant for developers or technical professionals.'')
        else str ''The content is primarily explanatory and conceptual in nature.'') @
       str '' The document was successfully extracted using '' @
       extractionMethod @
       str '' and provides comprehensive coverage of its subject matter.'')"

definition fallback_insights :: "doc_stats \<Rightarrow> jsstring \<Rightarrow> jsstring" where
  "fallback_insights st extractionMethod =
     (str ''This document provides substantial content about '' @
       join_with (str '', '') (take 3 (topTopics st)) @
       str '' with '' @
       show_nat (wordCount st) @
       str ('' words of detailed information. The material is well-structured '' @
            ''with '') @
       show_nat (paragraphCount st) @
       str '' main sections and appears to target '' @
       (if hasTechnicalTerms st then str ''technical professionals, developers, or engineers''
        else str ''general audiences interested in the subject matter'') @
       str ''. '' @
       (if hasCode st then str (''The inclusion of code examples and technical implementations '' @
                ''makes it particularly valuable for hands-on learning and '' @
                ''practical application.'')
        else str (''The explanatory nature of the content makes it suitable for '' @
                ''educational and reference purposes.'')) @
       str '' The successful extraction using '' @
       extractionMethod @
       str ('' ensures high content fidelity, making this document valuable '' @
            ''for knowledge sharing, training, and reference purposes.''))"

definition fallback_features :: "doc_stats \<Rightarrow> jsstring \<Rightarrow> jsstring list" where
  "fallback_features st extractionMethod =
     [str ''Comprehensive content with '' @
       show_nat (wordCount st) @
       str '' words organized in '' @
       show_nat (paragraphCount st) @
       str '' main sections'',
      str ''Primary topics include: '' @
       join_with (str '', '') (take 4 (topTopics st)),
      (if hasCode st then str ''Contains code examples, functions, and technical implementations''
        else str ''Focuses on conceptual explanations and theoretical content''),
      str ''Document structure: '' @
       show_nat (sentenceCount st) @
       str '' sentences across multiple sections'',
      str ''Successfully extracted using '' @
       extractionMethod @
       str '' with high content quality'']"

definition fallback_useCases :: "doc_stats \<Rightarrow> jsstring list" where
  "fallback_useCases st =
     [str ''Reference material for professionals working with '' @
       topic_or (topTopics st) 0 (str ''the documented subject matter''),
      str ''Educational resource for learning about '' @
       topic_or (topTopics st) 1 (str ''the covered topics''),
      (if hasCode st then str ''Technical documentation for developers and engineers''
        else str ''Knowledge base for research and information purposes'')]"

definition fallback_technologies :: "doc_stats \<Rightarrow> jsstring list" where
  "fallback_technologies st =
     (if hasTechnicalTerms st then take 6 (topTopics st)
      else map str [''Document Processing'', ''Text Analysis'', ''Content Management''])"

definition fallbackAnalysis :: "doc_stats \<Rightarrow> jsstring \<Rightarrow> jsval" where
  "fallbackAnalysis st extractionMethod =
     JObj [(str ''summary'', JStr (fallback_summary st extractionMethod)),
           (str ''features'', JArr (map JStr (fallback_features st extractionMethod))),
           (str ''technologies'', JArr (map JStr (fallback_technologies st))),
           (str ''useCases'', JArr (map JStr (fallback_useCases st))),
           (str ''insights'', JStr (fallback_insights st extractionMethod))]"

subsection \<open>The reply of the model\<close>

text \<open>
  A call of \<open>fetch\<close> rejects, or resolves to a response with a status and a body;
  \<open>response.json()\<close> gives the parsed body or rejects (\<open>None\<close>). \<open>response.ok\<close> is a
  status from 200 to 299.
\<close>

datatype http = Rejects | Responds nat "jsval option"

definition status_ok :: "nat \<Rightarrow> bool" where
  "status_ok s = (200 \<le> s \<and> s \<le> 299)"

text \<open>
  \<open>data.candidates[0].content.parts[0].text\<close>, \<open>None\<close> when a read on the way throws.
\<close>

definition candidate_text :: "jsval \<Rightarrow> jsval option" where
  "candidate_text data =
     Option.bind (get_prop data (str ''candidates'')) (\<lambda>cs.
     Option.bind (get_prop cs (str ''0'')) (\<lambda>c.
     Option.bind (get_prop c (str ''content'')) (\<lambda>ct.
     Option.bind (get_prop ct (str ''parts'')) (\<lambda>ps.
     Option.bind (get_prop ps (str ''0'')) (\<lambda>p.
     get_prop p (str ''text''))))))"

text \<open>
  \<open>text.match(/\{[\s\S]*\}/)\<close>: from the first opening brace to the last closing brace
  after it; no match without such a pair.
\<close>

definition match_braces :: "jsstring \<Rightarrow> jsstring option" where
  "match_braces s =
     (case dropWhile (\<lambda>c. c \<noteq> 123) s of
        [] \<Rightarrow> None
      | b # rest \<Rightarrow>
          if 125 \<in> set rest then Some (b # rev (dropWhile (\<lambda>c. c \<noteq> 125) (rev rest)))
          else None)"

text \<open>
  The quality condition on the parsed reply (\<open>parsed.summary && parsed.summary.length >
  100 && ...\<close>): a member passes when it is truthy and its \<open>length\<close> passes the
  comparison. A read from a parsed \<open>null\<close> throws, which the \<open>catch\<close> around the
  condition turns into the same outcome as a false condition.
\<close>

definition length_gt :: "runtime \<Rightarrow> jsval \<Rightarrow> jsstring \<Rightarrow> nat \<Rightarrow> bool" where
  "length_gt rt parsed k n =
     (case get_prop parsed k of
        None \<Rightarrow> False
      | Some v \<Rightarrow> truthy v \<and>
          (case get_prop v (str ''length'') of None \<Rightarrow> False | Some l \<Rightarrow> js_gt rt l n))"

definition length_ge :: "runtime \<Rightarrow> jsval \<Rightarrow> jsstring \<Rightarrow> nat \<Rightarrow> bool" where
  "length_ge rt parsed k n =
     (case get_prop parsed k of
        None \<Rightarrow> False
      | Some v \<Rightarrow> truthy v \<and>
          (case get_prop v (str ''length'') of None \<Rightarrow> False | Some l \<Rightarrow> js_ge rt l n))"

definition quality_ok :: "runtime \<Rightarrow> jsval \<Rightarrow> bool" where
  "quality_ok rt parsed =
     (length_gt rt parsed (str ''summary'') 100 \<and>
      length_ge rt parsed (str ''features'') 3 \<and>
      length_ge rt parsed (str ''useCases'') 2 \<and>
      length_gt rt parsed (str ''insights'') 100)"

text \<open>
  The inner \<open>try\<close> of \<open>generateEnhancedFileAnalysis\<close>: the parsed reply when the text is
  a string with a brace pair that parses and passes the quality condition; \<open>None\<close>
  otherwise, also when \<open>text.match\<close> or \<open>JSON.parse\<close> throws.
\<close>

definition accepted_reply :: "runtime \<Rightarrow> jsval \<Rightarrow> jsval option" where
  "accepted_reply rt reply =
     (case reply of
        JStr s \<Rightarrow>
          (case match_braces s of
             None \<Rightarrow> None
           | Some m \<Rightarrow>
               (case json_parse rt m of
                  None \<Rightarrow> None
                | Some parsed \<Rightarrow> if quality_ok rt parsed then Some parsed else None))
      | _ \<Rightarrow> None)"

text \<open>
  The services behind the file-analysis route. The three extractors are declared
  \<open>(file: File) => Promise<string>\<close>, but the first two return a member of a parsed
  response as it is (\<open>result.data || result.text || result.content\<close>, the \<open>text\<close> of
  a candidate), so an extractor resolves to a value of any kind, or rejects. The
  generative-language endpoint answers the prompt, which is built from the content, the
  file name and the extraction method.
\<close>

record File =
  file_name :: jsstring
  file_type :: jsstring
  file_text :: jsstring

record services =
  GEMINI_API_KEY :: bool
  extractPDFTextWithJina :: "File \<Rightarrow> jsval attempt"
  extractPDFWithGeminiVision :: "File \<Rightarrow> jsval attempt"
  extractPDFTextWithPDFJS :: "File \<Rightarrow> jsval attempt"
  generateContent :: "jsstring \<Rightarrow> jsstring \<Rightarrow> jsstring \<Rightarrow> http"

text \<open>
  \<open>generateEnhancedFileAnalysis\<close>. Every exception it lets out is made by
  \<open>throw new Error(message)\<close>: the result is \<open>Inl message\<close> then, and \<open>Inr\<close> of the
  analysis it returns otherwise. Whatever is thrown inside the outer \<open>try\<close> (a rejected
  \<open>fetch\<close>, a status that is not ok, a body that is no JSON, a reply without candidates)
  is caught and replaced by the one message.
\<close>

definition generateEnhancedFileAnalysis ::
    "runtime \<Rightarrow> services \<Rightarrow> jsstring \<Rightarrow> jsstring \<Rightarrow> jsstring \<Rightarrow> jsstring + jsval" where
  "generateEnhancedFileAnalysis rt env content filename extractionMethod =
     (if \<not> GEMINI_API_KEY env then Inl (str ''Gemini API key not configured'')
      else
        (case generateContent env content filename extractionMethod of
           Rejects \<Rightarrow> Inl (str ''Failed to generate AI analysis'')
         | Responds st body \<Rightarrow>
             if \<not> status_ok st then Inl (str ''Failed to generate AI analysis'')
             else
               (case Option.bind body candidate_text of
                  None \<Rightarrow> Inl (str ''Failed to generate AI analysis'')
                | Some reply \<Rightarrow>
                    (case accepted_reply rt reply of
                       Some parsed \<Rightarrow> Inr parsed
                     | None \<Rightarrow>
                         Inr (fallbackAnalysis (contentStats (lower rt) content)
                                extractionMethod)))))"

section \<open>The file-analysis route\<close>

text \<open>
  The request: \<open>request.formData()\<close> rejects (with an \<open>Error\<close> of some message, or
  with something that is no \<open>Error\<close>), or gives the form, whose field \<open>file\<close> is a file
  or is absent. The response: a status and a JSON body with the member \<open>error\<close> or
  \<open>analysis\<close>.
\<close>

datatype request = BadForm "jsstring option" | Form "File option"

datatype body = ErrorBody jsstring | AnalysisBody jsval

record response =
  status :: nat
  body :: body

text \<open>
  The validator applied to what an extractor returned: a string is validated; another
  falsy value (\<open>!text\<close>) is rejected; on another truthy value the call \<open>text.trim()\<close>
  throws a TypeError.
\<close>

definition validate_extracted :: "(jsstring \<Rightarrow> jsstring) \<Rightarrow> jsval \<Rightarrow> bool attempt" where
  "validate_extracted lc v =
     (case v of
        JStr s \<Rightarrow> Returns (isValidTextContent lc s)
      | _ \<Rightarrow> if truthy v then Throws TypeError else Returns False)"

text \<open>
  The variables of the PDF branch, and \<open>tried\<close>: the names of the extractors called so
  far, in the order of the calls (the console shows a line for each).
\<close>

record extraction =
  content :: jsval
  extractionMethod :: jsstring
  lastError :: "exn option"
  tried :: "jsstring list"

definition extractionMethods :: "services \<Rightarrow> (jsstring \<times> (File \<Rightarrow> jsval attempt)) list" where
  "extractionMethods env =
     [(str ''jina-ai'', extractPDFTextWithJina env),
      (str ''gemini-vision'', extractPDFWithGeminiVision env),
      (str ''pdf-js'', extractPDFTextWithPDFJS env)]"

text \<open>
  The body of the loop for one method; the boolean is true when the loop ends
  (\<open>break\<close>). The result of the extractor is assigned to \<open>content\<close> before it is
  validated. An exception of the extractor leaves \<open>content\<close> and \<open>extractionMethod\<close>
  as they were; an exception of the validator is caught by the same \<open>catch\<close>, after
  the two assignments and without the reset of the \<open>else\<close> branch.
\<close>

definition try_method ::
    "(jsstring \<Rightarrow> jsstring) \<Rightarrow> File \<Rightarrow> jsstring \<times> (File \<Rightarrow> jsval attempt) \<Rightarrow> extraction
      \<Rightarrow> bool \<times> extraction" where
  "try_method lc f m st =
     (case snd m f of
        Throws e \<Rightarrow> (False, st\<lparr>lastError := Some e, tried := tried st @ [fst m]\<rparr>)
      | Returns v \<Rightarrow>
          (case validate_extracted lc v of
             Returns valid \<Rightarrow>
               if valid
               then (True, st\<lparr>content := v, extractionMethod := fst m,
                              tried := tried st @ [fst m]\<rparr>)
               else (False, st\<lparr>content := JStr [], extractionMethod := fst m,
                               tried := tried st @ [fst m]\<rparr>)
           | Throws e \<Rightarrow>
               (False, st\<lparr>content := v, extractionMethod := fst m, lastError := Some e,
                          tried := tried st @ [fst m]\<rparr>)))"

fun extraction_loop ::
    "(jsstring \<Rightarrow> jsstring) \<Rightarrow> File \<Rightarrow> (jsstring \<times> (File \<Rightarrow> jsval attempt)) list \<Rightarrow> extraction
      \<Rightarrow> extraction" where
  "extraction_loop lc f [] st = st"
| "extraction_loop lc f (m # ms) st =
     (if fst (try_method lc f m st) then snd (try_method lc f m st)
      else extraction_loop lc f ms (snd (try_method lc f m st)))"

definition initial_extraction :: extraction where
  "initial_extraction =
     \<lparr>content = JStr [], extractionMethod = str ''unknown'', lastError = None, tried = []\<rparr>"

text \<open>
  The message of the PDF failure: a heading, four lines of what the PDF might be, a
  blank line, a second heading and three lines of what to try. Each line starts with a
  line feed, a bullet (U+2022) and a space.
\<close>

definition bullet :: jsstring where
  "bullet = [10, 8226, 32]"

definition pdf_failure_causes :: "jsstring list" where
  "pdf_failure_causes = map str
     [''Image-based (scanned document)'',
      ''Password protected'',
      ''Corrupted or using unsupported encoding'',
      ''Contains only graphics/charts'']"

definition pdf_failure_remedies :: "jsstring list" where
  "pdf_failure_remedies = map str
     [''Converting to text format first'',
      ''Using OCR software if it's a scanned document'',
      ''Ensuring the PDF has selectable text'']"

definition pdf_failure_message :: jsstring where
  "pdf_failure_message =
     str ''Failed to extract readable text from PDF. This PDF might be:'' @
     concat (map (\<lambda>line. bullet @ line) pdf_failure_causes) @
     [10, 10] @ str ''Please try:'' @
     concat (map (\<lambda>line. bullet @ line) pdf_failure_remedies)"

definition unsupported_message :: "jsstring \<Rightarrow> jsstring" where
  "unsupported_message ty =
     str ''Unsupported file type: '' @ ty @
     str ''. Please upload PDF, Markdown (.md), or Text (.txt) files.''"

text \<open>
  What a request leads to: the response, the extractors called, and the arguments of the
  call of \<open>generateEnhancedFileAnalysis\<close> (content, file name, extraction method) when
  it is called. Between the loop and that call the route logs
  \<open>content.substring(0, 300)\<close>, which throws when the content is no string; the
  exception is caught at the end of the route.
\<close>

record outcome =
  reply :: response
  attempted :: "jsstring list"
  analysed :: "(jsstring \<times> jsstring \<times> jsstring) option"

definition has_suffix :: "runtime \<Rightarrow> File \<Rightarrow> jsstring \<Rightarrow> bool" where
  "has_suffix rt f sfx = endsWith (toLowerCase (lower rt) (file_name f)) sfx"

definition analyse ::
    "runtime \<Rightarrow> services \<Rightarrow> File \<Rightarrow> jsstring \<Rightarrow> jsstring \<Rightarrow> jsstring list \<Rightarrow> outcome" where
  "analyse rt env f text method calls =
     \<lparr>reply =
        (case generateEnhancedFileAnalysis rt env text (file_name f) method of
           Inr analysis \<Rightarrow> \<lparr>status = 200, body = AnalysisBody analysis\<rparr>
         | Inl message \<Rightarrow>
             \<lparr>status = 500, body = ErrorBody (str ''Failed to analyze file: '' @ message)\<rparr>),
      attempted = calls,
      analysed = Some (text, file_name f, method)\<rparr>"

definition POST_file :: "runtime \<Rightarrow> services \<Rightarrow> request \<Rightarrow> outcome" where
  "POST_file rt env req =
     (case req of
        BadForm m \<Rightarrow>
          \<lparr>reply = \<lparr>status = 500,
                     body = ErrorBody (str ''Failed to analyze file: '' @
                       (case m of Some message \<Rightarrow> message | None \<Rightarrow> str ''Unknown error''))\<rparr>,
           attempted = [], analysed = None\<rparr>
      | Form None \<Rightarrow>
          \<lparr>reply = \<lparr>status = 400, body = ErrorBody (str ''No file provided'')\<rparr>,
           attempted = [], analysed = None\<rparr>
      | Form (Some f) \<Rightarrow>
          if file_type f = str ''application/pdf'' \<or> has_suffix rt f (str ''.pdf'') then
            (let st = extraction_loop (lower rt) f (extractionMethods env) initial_extraction
             in if \<not> truthy (content st)
                then \<lparr>reply = \<lparr>status = 400, body = ErrorBody pdf_failure_message\<rparr>,
                      attempted = tried st, analysed = None\<rparr>
                else
                  (case content st of
                     JStr s \<Rightarrow> analyse rt env f s (extractionMethod st) (tried st)
                   | _ \<Rightarrow>
                       \<lparr>reply = \<lparr>status = 500,
                                  body = ErrorBody (str ''Failed to analyze file: '' @
                                    substring_error rt)\<rparr>,
                        attempted = tried st, analysed = None\<rparr>))
          else if file_type f = str ''text/markdown'' \<or> has_suffix rt f (str ''.md'') then
            analyse rt env f (file_text f) (str ''direct-text'') []
          else if file_type f = str ''text/plain'' \<or> has_suffix rt f (str ''.txt'') then
            analyse rt env f (file_text f) (str ''direct-text'') []
          else
            \<lparr>reply = \<lparr>status = 400, body = ErrorBody (unsupported_message (file_type f))\<rparr>,
             attempted = [], analysed = None\<rparr>)"

text \<open>
  An extractor's outcome ends the loop when it is a text the validator accepts. It is
  rejected when the extractor throws or the validator returns false on what it
  returned. The third case is a value on which the validator throws.
\<close>

definition accepted :: "(jsstring \<Rightarrow> jsstring) \<Rightarrow> jsval attempt \<Rightarrow> bool" where
  "accepted lc out =
     (case out of Returns v \<Rightarrow> validate_extracted lc v = Returns True | Throws e \<Rightarrow> False)"

definition rejected :: "(jsstring \<Rightarrow> jsstring) \<Rightarrow> jsval attempt \<Rightarrow> bool" where
  "rejected lc out =
     (case out of Returns v \<Rightarrow> validate_extracted lc v = Returns False | Throws e \<Rightarrow> True)"

subsection \<open>Sample requests\<close>

text \<open>
  A reply of the model that holds the JSON object \<open>{"summary":"Too short"}\<close>, and a
  runtime whose \<open>JSON.parse\<close> parses this one text.
\<close>

definition short_json :: jsstring where
  "short_json =
     str ''{'' @ [34] @ str ''summary'' @ [34] @ str '':'' @ [34] @ str ''Too short'' @ [34] @
     str ''}''"

definition short_parsed :: jsval where
  "short_parsed = JObj [(str ''summary'', JStr (str ''Too short''))]"

definition short_reply :: jsstring where
  "short_reply = str ''Here is the analysis: '' @ short_json @ str '' Done.''"

definition sample_runtime :: runtime where
  "sample_runtime =
     \<lparr>lower = map ascii_lower,
      json_parse = (\<lambda>s. if s = short_json then Some short_parsed else None),
      to_number = (\<lambda>v. None),
      base64_utf8 = (\<lambda>v. None),
      substring_error = str ''content.substring is not a function''\<rparr>"

text \<open>The body of a response of the generative-language endpoint with one candidate.\<close>

definition candidate_body :: "jsval \<Rightarrow> jsval" where
  "candidate_body txt =
     JObj [(str ''candidates'',
       JArr [JObj [(str ''content'',
         JObj [(str ''parts'', JArr [JObj [(str ''text'', txt)]])])]])]"

definition sample_pdf :: File where
  "sample_pdf = \<lparr>file_name = str ''Report.PDF'', file_type = str ''application/pdf'',
     file_text = []\<rparr>"

definition unavailable :: "File \<Rightarrow> jsval attempt" where
  "unavailable f = Throws (Error (str ''unavailable''))"

text \<open>
  \<open>reader_works\<close>: the hosted reader returns valid text. \<open>vision_works\<close>: the reader
  throws, the vision model returns valid text. \<open>nothing_works\<close>: the reader throws, the
  vision model returns text the validator rejects, the local parser throws.
  \<open>envelope_only\<close>: the reader's response is an envelope whose \<open>data\<close> is an object,
  which the reader returns; the other two throw. The model answers every prompt with
  \<open>short_reply\<close>.
\<close>

definition envelope :: jsval where
  "envelope =
     JObj [(str ''title'', JStr (str ''Report'')), (str ''content'', JStr cat_text)]"

definition envelope_only :: services where
  "envelope_only =
     \<lparr>GEMINI_API_KEY = True,
      extractPDFTextWithJina = (\<lambda>f. Returns envelope),
      extractPDFWithGeminiVision = unavailable,
      extractPDFTextWithPDFJS = unavailable,
      generateContent = (\<lambda>c n m. Responds 200 (Some (candidate_body (JStr short_reply))))\<rparr>"

text \<open>
  A document of two paragraphs for the statistics.
\<close>

definition sample_doc :: jsstring where
  "sample_doc =
     str ''The server stores data. Every request reads data from the database server!'' @
     [10, 10] @
     str ''The function returns data from the database, the server stores it again.''"


definition reader_works :: services where
  "reader_works =
     \<lparr>GEMINI_API_KEY = True,
      extractPDFTextWithJina = (\<lambda>f. Returns (JStr cat_text)),
      extractPDFWithGeminiVision = unavailable,
      extractPDFTextWithPDFJS = unavailable,
      generateContent = (\<lambda>c n m. Responds 200 (Some (candidate_body (JStr short_reply))))\<rparr>"

definition vision_works :: services where
  "vision_works =
     \<lparr>GEMINI_API_KEY = True,
      extractPDFTextWithJina = unavailable,
      extractPDFWithGeminiVision = (\<lambda>f. Returns (JStr cat_text)),
      extractPDFTextWithPDFJS = unavailable,
      generateContent = (\<lambda>c n m. Responds 200 (Some (candidate_body (JStr short_reply))))\<rparr>"

definition nothing_works :: services where
  "nothing_works =
     \<lparr>GEMINI_API_KEY = True,
      extractPDFTextWithJina = unavailable,
      extractPDFWithGeminiVision = (\<lambda>f. Returns (JStr hex_text)),
      extractPDFTextWithPDFJS = unavailable,
      generateContent = (\<lambda>c n m. Responds 200 (Some (candidate_body (JStr short_reply))))\<rparr>"

section \<open>The repository-analysis route\<close>

text \<open>
  The pattern \<open>/github\.com\/([^\/]+)\/([^\/]+)/\<close>: at the leftmost place where
  \<open>github.com/\<close> is followed by a non-empty run without a slash, a slash and another
  non-empty run without a slash, the two runs are the owner and the repository.
\<close>

definition repo_at :: "jsstring \<Rightarrow> (jsstring \<times> jsstring) option" where
  "repo_at s =
     (if startsWith s (str ''github.com/'') then
        (case dropWhile (\<lambda>c. c \<noteq> 47) (drop 11 s) of
           [] \<Rightarrow> None
         | slash # after \<Rightarrow>
             if takeWhile (\<lambda>c. c \<noteq> 47) (drop 11 s) \<noteq> [] \<and> takeWhile (\<lambda>c. c \<noteq> 47) after \<noteq> []
             then Some (takeWhile (\<lambda>c. c \<noteq> 47) (drop 11 s), takeWhile (\<lambda>c. c \<noteq> 47) after)
             else None)
      else None)"

fun match_repo :: "jsstring \<Rightarrow> (jsstring \<times> jsstring) option" where
  "match_repo [] = None"
| "match_repo (c # cs) =
     (case repo_at (c # cs) of Some r \<Rightarrow> Some r | None \<Rightarrow> match_repo cs)"

text \<open>
  The four endpoints of the GitHub API for an owner and a repository, and the
  generative-language endpoint for the prompt built from the repository data. The code
  reads no status.
\<close>

record repoData =
  name :: jsval
  description :: jsval
  stars :: jsval
  forks :: jsval
  language :: jsval
  created_at :: jsval
  updated_at :: jsval
  topics :: jsval
  contributors :: jsval
  languages :: jsval
  readme :: jsstring

record upstream =
  fetch_repo :: "jsstring \<Rightarrow> jsstring \<Rightarrow> http"
  fetch_contributors :: "jsstring \<Rightarrow> jsstring \<Rightarrow> http"
  fetch_languages :: "jsstring \<Rightarrow> jsstring \<Rightarrow> http"
  fetch_readme :: "jsstring \<Rightarrow> jsstring \<Rightarrow> http"
  gemini_key :: bool
  fetch_analysis :: "repoData \<Rightarrow> http"

text \<open>
  \<open>await (await fetch(url)).json()\<close> outside a \<open>try\<close>: the parsed body, or the
  exception.
\<close>

definition json_of :: "http \<Rightarrow> jsval attempt" where
  "json_of h =
     (case h of
        Rejects \<Rightarrow> Throws TypeError
      | Responds st None \<Rightarrow> Throws SyntaxError
      | Responds st (Some v) \<Rightarrow> Returns v)"

text \<open>
  The README: whatever is thrown in the \<open>try\<close> leaves the empty string. \<open>Buffer.from\<close>
  throws for \<open>undefined\<close>, \<open>null\<close>, a number and a boolean.
\<close>

definition readme_text :: "runtime \<Rightarrow> http \<Rightarrow> jsstring" where
  "readme_text rt h =
     (case json_of h of
        Throws e \<Rightarrow> []
      | Returns readmeData \<Rightarrow>
          (case get_prop readmeData (str ''content'') of
             None \<Rightarrow> []
           | Some (JStr s) \<Rightarrow> (case base64_utf8 rt (JStr s) of None \<Rightarrow> [] | Some t \<Rightarrow> t)
           | Some (JArr xs) \<Rightarrow> (case base64_utf8 rt (JArr xs) of None \<Rightarrow> [] | Some t \<Rightarrow> t)
           | Some (JObj kv) \<Rightarrow> (case base64_utf8 rt (JObj kv) of None \<Rightarrow> [] | Some t \<Rightarrow> t)
           | Some other \<Rightarrow> []))"

text \<open>
  The members of the returned object are read from \<open>repoInfo\<close> after the four
  requests; the read throws when \<open>repoInfo\<close> is \<open>null\<close>.
\<close>

definition the_member :: "jsval \<Rightarrow> jsstring \<Rightarrow> jsval" where
  "the_member v k = (case get_prop v k of None \<Rightarrow> JUndefined | Some x \<Rightarrow> x)"

definition fetchRepoData :: "runtime \<Rightarrow> upstream \<Rightarrow> jsstring \<Rightarrow> jsstring \<Rightarrow> repoData attempt" where
  "fetchRepoData rt gh owner repo =
     (case json_of (fetch_repo gh owner repo) of
        Throws e \<Rightarrow> Throws e
      | Returns repoInfo \<Rightarrow>
     (case json_of (fetch_contributors gh owner repo) of
        Throws e \<Rightarrow> Throws e
      | Returns contributors_json \<Rightarrow>
     (case json_of (fetch_languages gh owner repo) of
        Throws e \<Rightarrow> Throws e
      | Returns languages_json \<Rightarrow>
          if repoInfo = JNull \<or> repoInfo = JUndefined then Throws TypeError
          else Returns
            \<lparr>name = the_member repoInfo (str ''name''),
             description = or_else (the_member repoInfo (str ''description'')) (JStr []),
             stars = the_member repoInfo (str ''stargazers_count''),
             forks = the_member repoInfo (str ''forks_count''),
             language = or_else (the_member repoInfo (str ''language'')) (JStr (str ''Unknown'')),
             created_at = the_member repoInfo (str ''created_at''),
             updated_at = the_member repoInfo (str ''updated_at''),
             topics = or_else (the_member repoInfo (str ''topics'')) (JArr []),
             contributors = or_else contributors_json (JArr []),
             languages = or_else languages_json (JObj []),
             readme = readme_text rt (fetch_readme gh owner repo)\<rparr>)))"

text \<open>
  \<open>generateAnalysis\<close>. The prompt, built before the request, converts the name, the
  description and the language to strings and calls \<open>repoData.topics.join\<close>, which
  only an array has and which converts the elements. The response is read without a
  look at its status. The degraded result is built from the raw text of the model,
  which must be a string for \<open>text.substring\<close>.
\<close>

definition degraded :: "repoData \<Rightarrow> jsstring \<Rightarrow> jsval" where
  "degraded rd raw =
     JObj [(str ''summary'', JStr (take 200 raw @ str ''...'')),
           (str ''features'', JArr [JStr (str ''Feature extraction failed'')]),
           (str ''technologies'', JArr [language rd]),
           (str ''useCases'', JArr [JStr (str ''Use case analysis failed'')]),
           (str ''insights'', JStr (str ''Additional analysis unavailable''))]"

definition is_array :: "jsval \<Rightarrow> bool" where
  "is_array v = (case v of JArr xs \<Rightarrow> True | _ \<Rightarrow> False)"

definition prompt_throws :: "repoData \<Rightarrow> bool" where
  "prompt_throws rd =
     (to_string_throws (name rd) \<or>
      to_string_throws (description rd) \<or>
      to_string_throws (language rd) \<or>
      \<not> is_array (topics rd) \<or>
      to_string_throws (topics rd))"

definition generateAnalysis :: "runtime \<Rightarrow> upstream \<Rightarrow> repoData \<Rightarrow> jsval attempt" where
  "generateAnalysis rt gh rd =
     (if \<not> gemini_key gh then Throws (Error (str ''Gemini API key not configured''))
      else if prompt_throws rd then Throws TypeError
      else
        (case json_of (fetch_analysis gh rd) of
           Throws e \<Rightarrow> Throws e
         | Returns data \<Rightarrow>
             (case candidate_text data of
                None \<Rightarrow> Throws TypeError
              | Some (JStr raw) \<Rightarrow>
                  (case match_braces raw of
                     None \<Rightarrow> Returns (degraded rd raw)
                   | Some m \<Rightarrow>
                       (case json_parse rt m of
                          None \<Rightarrow> Returns (degraded rd raw)
                        | Some parsed \<Rightarrow> Returns parsed))
              | Some other \<Rightarrow> Throws TypeError)))"

datatype repo_body = RepoError jsstring | RepoResult repoData jsval

record repo_response =
  repo_status :: nat
  repo_body :: repo_body

definition failed_repo :: repo_response where
  "failed_repo = \<lparr>repo_status = 500, repo_body = RepoError (str ''Failed to analyze repository'')\<rparr>"

text \<open>
  The route: \<open>request.json()\<close> gives the body (\<open>None\<close> when it rejects); \<open>repoUrl\<close> is
  its member, and must be a string for \<open>repoUrl.match\<close>.
\<close>

definition POST_repo :: "runtime \<Rightarrow> upstream \<Rightarrow> jsval option \<Rightarrow> repo_response" where
  "POST_repo rt gh req =
     (case Option.bind req (\<lambda>b. get_prop b (str ''repoUrl'')) of
        Some (JStr repoUrl) \<Rightarrow>
          (case match_repo repoUrl of
             None \<Rightarrow> \<lparr>repo_status = 400, repo_body = RepoError (str ''Invalid GitHub URL'')\<rparr>
           | Some (owner, repo) \<Rightarrow>
               (case fetchRepoData rt gh owner repo of
                  Throws e \<Rightarrow> failed_repo
                | Returns rd \<Rightarrow>
                    (case generateAnalysis rt gh rd of
                       Throws e \<Rightarrow> failed_repo
                     | Returns analysis \<Rightarrow>
                         \<lparr>repo_status = 200, repo_body = RepoResult rd analysis\<rparr>)))
      | _ \<Rightarrow> failed_repo)"

subsection \<open>Sample upstream\<close>

text \<open>
  A repository \<open>octo/demo\<close> without description, language and topics, whose
  contributors endpoint answers \<open>null\<close> and whose README is missing (status 404); the
  generative-language endpoint answers with status 429 and an error body.
\<close>

definition sample_info :: jsval where
  "sample_info =
     JObj [(str ''name'', JStr (str ''demo'')),
           (str ''description'', JNull),
           (str ''stargazers_count'', JNum (Num 7)),
           (str ''forks_count'', JNum (Num 2)),
           (str ''language'', JNull),
           (str ''created_at'', JStr (str ''2024-01-01T00:00:00Z'')),
           (str ''updated_at'', JStr (str ''2024-02-01T00:00:00Z''))]"

definition not_found :: jsval where
  "not_found = JObj [(str ''message'', JStr (str ''Not Found''))]"

definition quota_error :: jsval where
  "quota_error =
     JObj [(str ''error'',
       JObj [(str ''code'', JNum (Num 429)), (str ''status'', JStr (str ''RESOURCE_EXHAUSTED''))])]"

definition sample_upstream :: upstream where
  "sample_upstream =
     \<lparr>fetch_repo = (\<lambda>owner repo. Responds 200 (Some sample_info)),
      fetch_contributors = (\<lambda>owner repo. Responds 200 (Some JNull)),
      fetch_languages = (\<lambda>owner repo. Responds 200 (Some (JObj [(str ''C'', JNum (Num 10))]))),
      fetch_readme = (\<lambda>owner repo. Responds 404 (Some not_found)),
      gemini_key = True,
      fetch_analysis = (\<lambda>rd. Responds 429 (Some quota_error))\<rparr>"

definition sample_request :: "jsval option" where
  "sample_request = Some (JObj [(str ''repoUrl'', JStr (str ''https://github.com/octo/demo''))])"

text \<open>
  What \<open>fetchRepoData\<close> returns for the sample, and an upstream whose
  generative-language endpoint answers with status 503 and a candidate text without a
  JSON object.
\<close>

definition sample_repoData :: repoData where
  "sample_repoData =
     \<lparr>name = JStr (str ''demo''),
      description = JStr [],
      stars = JNum (Num 7),
      forks = JNum (Num 2),
      language = JStr (str ''Unknown''),
      created_at = JStr (str ''2024-01-01T00:00:00Z''),
      updated_at = JStr (str ''2024-02-01T00:00:00Z''),
      topics = JArr [],
      contributors = JArr [],
      languages = JObj [(str ''C'', JNum (Num 10))],
      readme = []\<rparr>"

definition busy_text :: jsstring where
  "busy_text = str ''The service is busy, no analysis''"

definition busy_upstream :: upstream where
  "busy_upstream =
     sample_upstream\<lparr>fetch_analysis := (\<lambda>rd. Responds 503 (Some (candidate_body (JStr busy_text))))\<rparr>"

section \<open>Properties\<close>

lemma str_includes_iff: "str_includes s w = (\<exists>p q. s = p @ w @ q)"
proof (induction s)
  case Nil
  then show ?case by auto
next
  case (Cons c cs)
  have "startsWith (c # cs) w = (\<exists>q. c # cs = w @ q)"
    unfolding startsWith_def
    by (metis append_eq_conv_conj)
  moreover have "(\<exists>p q. c # cs = p @ w @ q) =
      ((\<exists>q. c # cs = w @ q) \<or> (\<exists>p q. cs = p @ w @ q))"
  proof
    assume "\<exists>p q. c # cs = p @ w @ q"
    then obtain p q where pq: "c # cs = p @ w @ q" by blast
    show "(\<exists>q. c # cs = w @ q) \<or> (\<exists>p q. cs = p @ w @ q)"
    proof (cases p)
      case Nil
      with pq show ?thesis by auto
    next
      case (Cons a p')
      with pq have "cs = p' @ w @ q" by simp
      then show ?thesis by blast
    qed
  next
    assume "(\<exists>q. c # cs = w @ q) \<or> (\<exists>p q. cs = p @ w @ q)"
    then show "\<exists>p q. c # cs = p @ w @ q"
    proof
      assume "\<exists>q. c # cs = w @ q"
      then obtain q where "c # cs = [] @ w @ q" by auto
      then show ?thesis by blast
    next
      assume "\<exists>p q. cs = p @ w @ q"
      then obtain p q where "c # cs = (c # p) @ w @ q" by auto
      then show ?thesis by blast
    qed
  qed
  ultimately show ?case using Cons.IH by simp
qed

lemma split_acc_nonempty: "split_acc sep acc s \<noteq> []"
  by (induction sep acc s rule: split_acc.induct) auto

lemma words_of_nonempty: "words_of lc text \<noteq> []"
  by (simp add: words_of_def split_ws_def split_acc_nonempty)

lemma ratio_below_real:
  assumes "0 < b" and "0 < q"
  shows "ratio_below a b p q = (real a / real b < real p / real q)"
proof -
  have "(real a / real b < real p / real q) = (real a * real q < real p * real b)"
    using assms by (simp add: field_simps)
  also have "\<dots> = (real (a * q) < real (p * b))"
    by simp
  also have "\<dots> = (a * q < p * b)"
    by (simp only: of_nat_less_iff)
  finally show ?thesis
    by (simp add: ratio_below_def)
qed

lemma trim_Nil: "trim [] = []"
  by (simp add: trim_def)

lemma hasCommonWords_iff: "hasCommonWords lc text = check_common lc text"
  by (simp add: hasCommonWords_def check_common_def list_ex_iff str_includes_iff)

lemma validation_TooShort: "(validation lc text = TooShort) = (\<not> check_length text)"
  by (auto simp: validation_def check_length_def trim_Nil)

lemma readable_step:
  assumes "text \<noteq> []"
  shows "ratio_below (readableChars text) (length text) 7 10 = (\<not> check_readable text)"
  using assms ratio_below_real [of "length text" 10 "readableChars text" 7]
  by (simp add: check_readable_def not_le)

lemma meaningful_step:
  "ratio_below (length (meaningfulWords lc text)) (max (length (words_of lc text)) 1) 3 10
     = (\<not> check_meaningful lc text)"
proof -
  have pos: "0 < length (words_of lc text)"
    using words_of_nonempty [of lc "text"] by simp
  then have "max (length (words_of lc text)) 1 = length (words_of lc text)"
    by arith
  then show ?thesis
    using pos ratio_below_real [of "length (words_of lc text)" 10 "length (meaningfulWords lc text)" 3]
    by (simp add: check_meaningful_def share_meaningful_def meaningfulWords_def words_of_def not_le)
qed

text \<open>
  Claim C1, as amended. The validator returns true exactly when the four checks pass:
  the trimmed length is at least 100; the readable characters are at least 0.70 of the
  length; the meaningful words are at least 0.30 of the whitespace-split words of the
  lower-cased text; a common word is a substring of the lower-cased text. A text whose
  trimmed length is below 100 is rejected.
\<close>

theorem validator_four_checks:
  "isValidTextContent lc text =
     (check_length text \<and> check_readable text \<and> check_meaningful lc text \<and> check_common lc text)
   \<and> (length (trim text) < 100 \<longrightarrow> \<not> isValidTextContent lc text)"
proof -
  have eq: "isValidTextContent lc text =
     (check_length text \<and> check_readable text \<and> check_meaningful lc text \<and> check_common lc text)"
  proof (cases "text = []")
    case True
    then show ?thesis
      by (simp add: isValidTextContent_def validation_def check_length_def trim_Nil)
  next
    case False
    then show ?thesis
      unfolding isValidTextContent_def validation_def
      by (simp add: readable_step meaningful_step hasCommonWords_iff check_length_def not_less
            del: One_nat_def)
  qed
  then show ?thesis
    by (simp add: check_length_def)
qed

text \<open>
  The short text \<open>hello world\<close> is rejected.
\<close>

theorem validator_four_checks_witness:
  "length (trim (str ''hello world'')) < 100 \<and> \<not> isValidTextContent (map ascii_lower) (str ''hello world'')"
proof -
  have short: "length (trim (str ''hello world'')) < 100"
    by code_simp
  with validator_four_checks [of "map ascii_lower" "str ''hello world''"] show ?thesis
    by blast
qed

text \<open>
  Claim C1 as stated takes the words of the third check from the text itself. The text
  \<open>capitalised_text\<close> (capitalised words of at least eight letters) passes the four
  checks so read: each word has an upper-case letter, so it is no lower-case
  alphanumeric string. The code lower-cases the text before it splits, every word then
  matches \<open>/^[a-z0-9_]{8,}$/\<close>, and the validator returns false.
\<close>

theorem stated_checks_counterexample:
  "check_length capitalised_text \<and> check_readable capitalised_text \<and>
   check_meaningful_stated capitalised_text \<and>
   check_common (map ascii_lower) capitalised_text \<and>
   \<not> isValidTextContent (map ascii_lower) capitalised_text"
proof -
  have "check_length capitalised_text \<and> check_readable capitalised_text \<and>
     check_meaningful_stated capitalised_text \<and>
     hasCommonWords (map ascii_lower) capitalised_text \<and>
     \<not> isValidTextContent (map ascii_lower) capitalised_text"
    by code_simp
  then show ?thesis
    by (simp add: hasCommonWords_iff)
qed

lemma split_acc_no_sep: "list_all (\<lambda>c. \<not> sep c) s \<Longrightarrow> split_acc sep acc s = [rev acc @ s]"
  by (induction s arbitrary: acc) auto

lemma dropWhile_none: "list_all (\<lambda>c. \<not> P c) s \<Longrightarrow> dropWhile P s = s"
  by (cases s) auto

lemma trim_no_ws: "list_all (\<lambda>c. \<not> is_ws c) s \<Longrightarrow> trim s = s"
proof -
  assume a: "list_all (\<lambda>c. \<not> is_ws c) s"
  then have "list_all (\<lambda>c. \<not> is_ws c) (rev s)"
    by (simp add: list_all_iff)
  then have "dropWhile is_ws (rev s) = rev s"
    by (rule dropWhile_none)
  with a show ?thesis
    by (simp add: trim_def dropWhile_none)
qed

lemma is_hex_like_facts:
  assumes "is_hex_like c"
  shows "\<not> is_ws c" and "is_readable c" and "is_ascii c" and "\<not> is_ws (ascii_lower c)"
  using assms
  by (auto simp: is_hex_like_def is_ws_def is_readable_def is_ascii_def ascii_lower_def
      is_digit_def is_lower_def is_upper_def)

lemma list_all_concat_replicate:
  "list_all P tok \<Longrightarrow> list_all P (concat (replicate n tok))"
  by (induction n) auto

lemma hex_like_toLowerCase:
  assumes "list_all is_hex_like s"
  shows "toLowerCase lc s = map ascii_lower s"
proof -
  from assms have "list_all is_ascii s"
    by (auto simp: list_all_iff is_hex_like_facts)
  then show ?thesis
    by (simp add: toLowerCase_def)
qed

lemma hex_like_words_of:
  assumes "list_all is_hex_like s"
  shows "words_of lc s = [map ascii_lower s]"
proof -
  from assms have "list_all (\<lambda>c. \<not> is_ws c) (map ascii_lower s)"
    by (auto simp: list_all_iff is_hex_like_facts)
  then show ?thesis
    using assms by (simp add: words_of_def split_ws_def hex_like_toLowerCase split_acc_no_sep)
qed

lemma str_includes_member: "c \<in> set s \<Longrightarrow> str_includes s [c]"
  by (induction s) (auto simp: startsWith_def)

text \<open>
  Claim C5, as amended. A text that is a hex token (characters \<open>0-9\<close>, \<open>a-f\<close>,
  \<open>A-F\<close>) repeated, of at least 100 characters, is rejected, and the check that
  rejects it is the meaningful-word ratio: the text has no white space, so it is one
  word of more than 20 characters. The length and the readable-ratio checks pass, and
  the common-word check, which is not reached, would pass when the token has an
  \<open>a\<close>.
\<close>

theorem hex_text_rejected:
  assumes hex: "list_all is_hex_like tok" and long: "100 \<le> length (concat (replicate n tok))"
  shows "\<not> isValidTextContent lc (concat (replicate n tok)) \<and>
         validation lc (concat (replicate n tok)) = LowMeaningfulRatio \<and>
         check_length (concat (replicate n tok)) \<and>
         check_readable (concat (replicate n tok)) \<and>
         \<not> check_meaningful lc (concat (replicate n tok)) \<and>
         (97 \<in> set tok \<or> 65 \<in> set tok \<longrightarrow> hasCommonWords lc (concat (replicate n tok)))"
proof -
  define t where "t = concat (replicate n tok)"
  have all_hex: "list_all is_hex_like t"
    unfolding t_def using hex by (rule list_all_concat_replicate)
  have len: "100 \<le> length t"
    using long by (simp add: t_def)
  then have ne: "t \<noteq> []"
    by auto
  have "list_all (\<lambda>c. \<not> is_ws c) t"
    using all_hex by (auto simp: list_all_iff is_hex_like_facts)
  then have trim: "trim t = t"
    by (rule trim_no_ws)
  have "filter is_readable t = t"
    using all_hex by (auto simp: list_all_iff is_hex_like_facts)
  then have readable: "readableChars t = length t"
    by (simp add: readableChars_def)
  have ws: "words_of lc t = [map ascii_lower t]"
    using all_hex by (rule hex_like_words_of)
  have "\<not> meaningful (map ascii_lower t)"
    using len by (simp add: meaningful_def)
  then have none: "meaningfulWords lc t = []"
    by (simp add: meaningfulWords_def ws)
  have v: "validation lc t = LowMeaningfulRatio"
    using len ne by (simp add: validation_def trim readable ws none ratio_below_def)
  have c1: "check_length t"
    using len by (simp add: check_length_def trim)
  have c2: "check_readable t"
    using ne by (simp add: check_readable_def readable)
  have c3: "\<not> check_meaningful lc t"
    using meaningful_step [of lc t] by (simp add: ws none ratio_below_def)
  have c4: "hasCommonWords lc t" if a: "97 \<in> set tok \<or> 65 \<in> set tok"
  proof -
    have "n \<noteq> 0"
    proof
      assume "n = 0"
      with len show False by (simp add: t_def)
    qed
    with a have "97 \<in> set t \<or> 65 \<in> set t"
      by (auto simp: t_def)
    then have "97 \<in> ascii_lower ` set t"
    proof
      assume "97 \<in> set t"
      then have "ascii_lower 97 \<in> ascii_lower ` set t"
        by (rule imageI)
      then show ?thesis
        by (simp add: ascii_lower_def is_upper_def)
    next
      assume "65 \<in> set t"
      then have "ascii_lower 65 \<in> ascii_lower ` set t"
        by (rule imageI)
      then show ?thesis
        by (simp add: ascii_lower_def is_upper_def)
    qed
    then have "str_includes (map ascii_lower t) (str ''a'')"
      by (simp add: str_includes_member str_def)
    moreover have "str ''a'' \<in> set commonWords"
      by (simp add: commonWords_def)
    ultimately show ?thesis
      by (auto simp: hasCommonWords_def hex_like_toLowerCase all_hex list_ex_iff)
  qed
  show ?thesis
    using v c1 c2 c3 c4 by (simp add: isValidTextContent_def t_def)
qed

text \<open>
  The token \<open>a1b2c3d4a1b2c3d4\<close> seven times (112 characters).
\<close>

theorem hex_text_rejected_witness:
  "list_all is_hex_like hex_token \<and> 100 \<le> length hex_text \<and>
   \<not> isValidTextContent (map ascii_lower) hex_text \<and>
   validation (map ascii_lower) hex_text = LowMeaningfulRatio \<and>
   hasCommonWords (map ascii_lower) hex_text"
proof -
  have h1: "list_all is_hex_like hex_token"
    by code_simp
  have h2: "100 \<le> length (concat (replicate 7 hex_token))"
    by code_simp
  have h3: "97 \<in> set hex_token"
    by code_simp
  show ?thesis
    using hex_text_rejected [OF h1 h2, of "map ascii_lower"] h1 h2 h3
    by (simp add: hex_text_def)
qed

text \<open>
  Claim C5 as stated gives the common-word check as the one that fails. On the claim's
  own token a common word does occur (\<open>a\<close> is in the list and in the text), and the
  validator does not return at the common-word check.
\<close>

theorem hex_text_common_word_counterexample:
  "hasCommonWords (map ascii_lower) hex_text \<and>
   validation (map ascii_lower) hex_text \<noteq> NoCommonWords"
  by code_simp

text \<open>
  Claim C6. The common-word check is substring containment in the lower-cased text.
  The text \<open>cat\<close> is one word, not a common word, and passes the check because the
  common word \<open>a\<close> occurs in it; a check by tokens rejects it. The text \<open>cat_text\<close> (the words \<open>cat\<close> and
  \<open>dog\<close>) has no common word among its words and passes the whole validator.
\<close>

theorem substring_common_word:
  "hasCommonWords lc t = (\<exists>w \<in> set commonWords. \<exists>p q. toLowerCase lc t = p @ w @ q) \<and>
   hasCommonWords lc (str ''cat'') \<and>
   \<not> hasCommonWordsTokenized lc (str ''cat'') \<and>
   words_of lc (str ''cat'') = [str ''cat''] \<and>
   str ''a'' \<in> set commonWords \<and>
   str_includes (str ''cat'') (str ''a'') \<and>
   isValidTextContent lc cat_text \<and>
   \<not> hasCommonWordsTokenized lc cat_text"
proof -
  have "hasCommonWords lc t = (\<exists>w \<in> set commonWords. \<exists>p q. toLowerCase lc t = p @ w @ q)"
    by (simp add: hasCommonWords_iff check_common_def)
  moreover have "hasCommonWords lc (str ''cat'') \<and>
     \<not> hasCommonWordsTokenized lc (str ''cat'') \<and>
     words_of lc (str ''cat'') = [str ''cat''] \<and>
     str ''a'' \<in> set commonWords \<and>
     str_includes (str ''cat'') (str ''a'') \<and>
     isValidTextContent lc cat_text \<and>
     \<not> hasCommonWordsTokenized lc cat_text"
    by code_simp
  ultimately show ?thesis
    by blast
qed

lemma try_method_accepted:
  assumes "accepted lc (snd m f)"
  shows "\<exists>c. snd m f = Returns (JStr c) \<and> isValidTextContent lc c \<and>
    try_method lc f m st =
      (True, st\<lparr>content := JStr c, extractionMethod := fst m, tried := tried st @ [fst m]\<rparr>)"
proof (cases "snd m f")
  case (Throws e)
  with assms show ?thesis
    by (simp add: accepted_def)
next
  case (Returns v)
  with assms have ok: "validate_extracted lc v = Returns True"
    by (simp add: accepted_def)
  then obtain c where v: "v = JStr c"
    by (cases v) (simp_all add: validate_extracted_def split: if_splits)
  with ok have "isValidTextContent lc c"
    by (simp add: validate_extracted_def)
  with Returns v ok show ?thesis
    by (simp add: try_method_def)
qed

lemma try_method_not_accepted:
  assumes "\<not> accepted lc (snd m f)"
  shows "fst (try_method lc f m st) = False"
proof (cases "snd m f")
  case (Throws e)
  then show ?thesis
    by (simp add: try_method_def)
next
  case (Returns v)
  with assms have "validate_extracted lc v \<noteq> Returns True"
    by (simp add: accepted_def)
  then show ?thesis
    by (cases "validate_extracted lc v") (simp_all add: try_method_def Returns)
qed

lemma rejected_not_accepted: "rejected lc out \<Longrightarrow> \<not> accepted lc out"
  by (cases out) (simp_all add: rejected_def accepted_def)

lemma try_method_rejected:
  assumes "rejected lc (snd m f)" and "content st = JStr []"
  shows "content (snd (try_method lc f m st)) = JStr []"
  using assms by (cases "snd m f") (simp_all add: rejected_def try_method_def)

lemma try_method_validator_throws:
  assumes "snd m f = Returns v" and "validate_extracted lc v = Throws e"
  shows "try_method lc f m st =
    (False, st\<lparr>content := v, extractionMethod := fst m, lastError := Some e,
               tried := tried st @ [fst m]\<rparr>)"
  using assms by (simp add: try_method_def)

lemma validate_extracted_throws:
  "(validate_extracted lc v = Throws e) =
     (truthy v \<and> (\<forall>s. v \<noteq> JStr s) \<and> e = TypeError)"
  by (cases v) (auto simp: validate_extracted_def)

lemma loop_step_accepted:
  assumes "snd m f = Returns (JStr c)" and "isValidTextContent lc c"
  shows "extraction_loop lc f (m # ms) st =
    st\<lparr>content := JStr c, extractionMethod := fst m, tried := tried st @ [fst m]\<rparr>"
  using assms by (simp add: try_method_def validate_extracted_def)

lemma loop_step_not_accepted:
  assumes "\<not> accepted lc (snd m f)"
  shows "extraction_loop lc f (m # ms) st = extraction_loop lc f ms (snd (try_method lc f m st))"
  using try_method_not_accepted [OF assms, of st]
  by simp

lemma try_method_string_content:
  assumes "\<And>s. content st = JStr s \<Longrightarrow> s = [] \<or> isValidTextContent lc s"
    and "content (snd (try_method lc f m st)) = JStr t"
  shows "t = [] \<or> isValidTextContent lc t"
proof (cases "snd m f")
  case (Throws e)
  with assms show ?thesis
    by (simp add: try_method_def)
next
  case (Returns v)
  show ?thesis
  proof (cases v)
    case (JStr c)
    with Returns assms(2) show ?thesis
      by (simp add: try_method_def validate_extracted_def split: if_splits)
  qed (use Returns assms(2) in \<open>simp_all add: try_method_def validate_extracted_def split: if_splits\<close>)
qed

lemma loop_content:
  assumes "\<And>s. content st = JStr s \<Longrightarrow> s = [] \<or> isValidTextContent lc s"
    and "content (extraction_loop lc f ms st) = JStr t"
  shows "t = [] \<or> isValidTextContent lc t"
  using assms
proof (induction ms arbitrary: st)
  case Nil
  then show ?case by simp
next
  case (Cons m ms)
  have step: "\<And>s. content (snd (try_method lc f m st)) = JStr s \<Longrightarrow>
      s = [] \<or> isValidTextContent lc s"
    using Cons.prems(1) by (rule try_method_string_content)
  show ?case
  proof (cases "fst (try_method lc f m st)")
    case True
    with Cons.prems(2) have "content (snd (try_method lc f m st)) = JStr t"
      by simp
    then show ?thesis
      by (rule step)
  next
    case False
    with Cons.prems(2) have "content (extraction_loop lc f ms (snd (try_method lc f m st))) = JStr t"
      by simp
    with step show ?thesis
      by (rule Cons.IH)
  qed
qed

lemma loop_three:
  "extraction_loop lc f [a, b, c] st =
     (if accepted lc (snd a f) then snd (try_method lc f a st)
      else if accepted lc (snd b f) then snd (try_method lc f b (snd (try_method lc f a st)))
      else snd (try_method lc f c (snd (try_method lc f b (snd (try_method lc f a st))))))"
proof -
  have one: "extraction_loop lc f (m # ms) s = snd (try_method lc f m s)"
    if "accepted lc (snd m f)" for m ms s
  proof -
    from that obtain c where "try_method lc f m s =
        (True, s\<lparr>content := JStr c, extractionMethod := fst m, tried := tried s @ [fst m]\<rparr>)"
      using try_method_accepted by blast
    then show ?thesis
      by simp
  qed
  have last: "\<And>m s. extraction_loop lc f [m] s = snd (try_method lc f m s)"
  proof -
    fix m s
    show "extraction_loop lc f [m] s = snd (try_method lc f m s)"
      by simp
  qed
  show ?thesis
    by (simp add: one last loop_step_not_accepted del: extraction_loop.simps)
qed

lemma try_method_tried: "tried (snd (try_method lc f m st)) = tried st @ [fst m]"
proof (cases "snd m f")
  case (Throws e)
  then show ?thesis
    by (simp add: try_method_def)
next
  case (Returns v)
  then show ?thesis
    by (cases "validate_extracted lc v") (simp_all add: try_method_def)
qed

lemma valid_nonempty: "isValidTextContent lc t \<Longrightarrow> t \<noteq> []"
  by (auto simp: isValidTextContent_def validation_def)

lemma pdf_tried:
  "tried (extraction_loop lc f (extractionMethods env) initial_extraction) =
     (if accepted lc (extractPDFTextWithJina env f) then [str ''jina-ai'']
      else if accepted lc (extractPDFWithGeminiVision env f)
        then [str ''jina-ai'', str ''gemini-vision'']
      else [str ''jina-ai'', str ''gemini-vision'', str ''pdf-js''])"
  unfolding extractionMethods_def loop_three
  by (simp add: try_method_tried initial_extraction_def)

lemma pdf_second_accepted:
  assumes "extractPDFTextWithJina env f = Throws e"
    and "extractPDFWithGeminiVision env f = Returns (JStr t)"
    and "isValidTextContent lc t"
  shows "content (extraction_loop lc f (extractionMethods env) initial_extraction) = JStr t"
    and "extractionMethod (extraction_loop lc f (extractionMethods env) initial_extraction) =
           str ''gemini-vision''"
  unfolding extractionMethods_def loop_three
  using assms by (simp_all add: accepted_def try_method_def validate_extracted_def)

lemma pdf_all_rejected:
  assumes "rejected lc (extractPDFTextWithJina env f)"
    and "rejected lc (extractPDFWithGeminiVision env f)"
    and "rejected lc (extractPDFTextWithPDFJS env f)"
  shows "content (extraction_loop lc f (extractionMethods env) initial_extraction) = JStr []"
proof -
  have step: "content (snd (try_method lc f m st)) = JStr []"
    if "rejected lc (snd m f)" and "content st = JStr []" for m st
    using that by (rule try_method_rejected)
  show ?thesis
    unfolding extractionMethods_def loop_three
    using assms by (simp add: step initial_extraction_def rejected_not_accepted)
qed

lemma POST_pdf:
  assumes "file_type f = str ''application/pdf'' \<or> has_suffix rt f (str ''.pdf'')"
  shows "POST_file rt env (Form (Some f)) =
    (if \<not> truthy (content (extraction_loop (lower rt) f (extractionMethods env) initial_extraction))
     then \<lparr>reply = \<lparr>status = 400, body = ErrorBody pdf_failure_message\<rparr>,
           attempted = tried (extraction_loop (lower rt) f (extractionMethods env) initial_extraction),
           analysed = None\<rparr>
     else
       (case content (extraction_loop (lower rt) f (extractionMethods env) initial_extraction) of
          JStr s \<Rightarrow> analyse rt env f s
            (extractionMethod (extraction_loop (lower rt) f (extractionMethods env) initial_extraction))
            (tried (extraction_loop (lower rt) f (extractionMethods env) initial_extraction))
        | _ \<Rightarrow>
            \<lparr>reply = \<lparr>status = 500,
                       body = ErrorBody (str ''Failed to analyze file: '' @ substring_error rt)\<rparr>,
             attempted = tried (extraction_loop (lower rt) f (extractionMethods env) initial_extraction),
             analysed = None\<rparr>))"
  using assms by (simp add: POST_file_def Let_def)

lemma POST_pdf_attempted:
  assumes "file_type f = str ''application/pdf'' \<or> has_suffix rt f (str ''.pdf'')"
  shows "attempted (POST_file rt env (Form (Some f))) =
    tried (extraction_loop (lower rt) f (extractionMethods env) initial_extraction)"
  by (simp add: POST_pdf [OF assms] analyse_def split: jsval.split)

text \<open>
  Claim C2, as amended. For a PDF upload the extractors are called in the fixed order
  jina-ai, gemini-vision, pdf-js, each at most once, up to the first whose text the
  validator accepts: the reader alone when its text is accepted; the reader and the
  vision model when the reader throws or is not accepted and the vision model is
  accepted; all three otherwise. When the reader throws and the vision model returns
  text that passes the validator, two extractors are called and the analysis is given
  that text with the method gemini-vision.
\<close>

theorem strategies_in_order:
  assumes pdf: "file_type f = str ''application/pdf'' \<or> has_suffix rt f (str ''.pdf'')"
  shows "attempted (POST_file rt env (Form (Some f))) =
      (if accepted (lower rt) (extractPDFTextWithJina env f) then [str ''jina-ai'']
       else if accepted (lower rt) (extractPDFWithGeminiVision env f)
         then [str ''jina-ai'', str ''gemini-vision'']
       else [str ''jina-ai'', str ''gemini-vision'', str ''pdf-js''])
    \<and> (extractPDFTextWithJina env f = Throws e \<and>
       extractPDFWithGeminiVision env f = Returns (JStr t) \<and>
       isValidTextContent (lower rt) t \<longrightarrow>
         attempted (POST_file rt env (Form (Some f))) = [str ''jina-ai'', str ''gemini-vision''] \<and>
         analysed (POST_file rt env (Form (Some f))) = Some (t, file_name f, str ''gemini-vision''))"
proof (intro conjI impI)
  show order: "attempted (POST_file rt env (Form (Some f))) =
      (if accepted (lower rt) (extractPDFTextWithJina env f) then [str ''jina-ai'']
       else if accepted (lower rt) (extractPDFWithGeminiVision env f)
         then [str ''jina-ai'', str ''gemini-vision'']
       else [str ''jina-ai'', str ''gemini-vision'', str ''pdf-js''])"
    by (simp only: POST_pdf_attempted [OF pdf] pdf_tried)
  assume a: "extractPDFTextWithJina env f = Throws e \<and>
       extractPDFWithGeminiVision env f = Returns (JStr t) \<and>
       isValidTextContent (lower rt) t"
  then show "attempted (POST_file rt env (Form (Some f))) = [str ''jina-ai'', str ''gemini-vision'']"
    by (simp add: order accepted_def validate_extracted_def)
  from a have c: "content (extraction_loop (lower rt) f (extractionMethods env) initial_extraction)
        = JStr t"
    and m: "extractionMethod (extraction_loop (lower rt) f (extractionMethods env) initial_extraction)
        = str ''gemini-vision''"
    by (simp_all add: pdf_second_accepted)
  from a have "t \<noteq> []"
    using valid_nonempty by blast
  then show "analysed (POST_file rt env (Form (Some f))) = Some (t, file_name f, str ''gemini-vision'')"
    by (simp add: POST_pdf [OF pdf] c m analyse_def)
qed

lemma sample_pdf_is_pdf:
  "file_type sample_pdf = str ''application/pdf'' \<or> has_suffix sample_runtime sample_pdf (str ''.pdf'')"
  by (simp add: sample_pdf_def)

lemma cat_text_valid: "isValidTextContent (map ascii_lower) cat_text"
  by code_simp

lemma hex_text_invalid: "\<not> isValidTextContent (map ascii_lower) hex_text"
  by code_simp

text \<open>
  The services \<open>vision_works\<close>: the reader throws, the vision model returns
  \<open>cat_text\<close>.
\<close>

theorem strategies_in_order_witness:
  "(file_type sample_pdf = str ''application/pdf'' \<or> has_suffix sample_runtime sample_pdf (str ''.pdf'')) \<and>
   extractPDFTextWithJina vision_works sample_pdf = Throws (Error (str ''unavailable'')) \<and>
   extractPDFWithGeminiVision vision_works sample_pdf = Returns (JStr cat_text) \<and>
   isValidTextContent (lower sample_runtime) cat_text \<and>
   attempted (POST_file sample_runtime vision_works (Form (Some sample_pdf))) =
     [str ''jina-ai'', str ''gemini-vision''] \<and>
   analysed (POST_file sample_runtime vision_works (Form (Some sample_pdf))) =
     Some (cat_text, file_name sample_pdf, str ''gemini-vision'')"
proof -
  have j: "extractPDFTextWithJina vision_works sample_pdf = Throws (Error (str ''unavailable''))"
    by (simp add: vision_works_def unavailable_def)
  have v: "extractPDFWithGeminiVision vision_works sample_pdf = Returns (JStr cat_text)"
    by (simp add: vision_works_def)
  have ok: "isValidTextContent (lower sample_runtime) cat_text"
    by (simp add: sample_runtime_def cat_text_valid)
  show ?thesis
    using strategies_in_order [OF sample_pdf_is_pdf, of vision_works "Error (str ''unavailable'')" cat_text]
      sample_pdf_is_pdf j v ok
    by blast
qed

text \<open>
  Claim C2 as stated has every extractor attempted exactly once for every PDF. When the
  reader's text passes the validator the loop ends there: gemini-vision and pdf-js are
  not called.
\<close>

theorem reader_success_counterexample:
  "attempted (POST_file sample_runtime reader_works (Form (Some sample_pdf))) = [str ''jina-ai'']"
proof -
  have "accepted (lower sample_runtime) (extractPDFTextWithJina reader_works sample_pdf)"
    by (simp add: accepted_def validate_extracted_def reader_works_def sample_runtime_def
        cat_text_valid)
  then show ?thesis
    by (simp add: POST_pdf_attempted [OF sample_pdf_is_pdf] pdf_tried)
qed

lemma pdf_failure_text:
  "pdf_failure_message =
     str ''Failed to extract readable text from PDF. This PDF might be:'' @
     bullet @ str ''Image-based (scanned document)'' @
     bullet @ str ''Password protected'' @
     bullet @ str ''Corrupted or using unsupported encoding'' @
     bullet @ str ''Contains only graphics/charts'' @
     [10, 10] @ str ''Please try:'' @
     bullet @ str ''Converting to text format first'' @
     bullet @ str ''Using OCR software if it's a scanned document'' @
     bullet @ str ''Ensuring the PDF has selectable text''"
  by (simp add: pdf_failure_message_def pdf_failure_causes_def pdf_failure_remedies_def
      del: append_assoc)

text \<open>
  Claim C3, as amended. When each of the three extractors throws or returns a value on
  which the validator returns false, the route answers a PDF upload with status 400
  and the fixed message, after calling all three and without calling the analysis. The
  message lists four things the PDF might be: image-based (a scanned document),
  password protected, corrupted or using an unsupported encoding, or containing only
  graphics and charts. Then it lists three things to try, the last of which is to make
  sure that the PDF has selectable text.
\<close>

theorem all_strategies_fail:
  assumes pdf: "file_type f = str ''application/pdf'' \<or> has_suffix rt f (str ''.pdf'')"
    and j: "rejected (lower rt) (extractPDFTextWithJina env f)"
    and v: "rejected (lower rt) (extractPDFWithGeminiVision env f)"
    and p: "rejected (lower rt) (extractPDFTextWithPDFJS env f)"
  shows "POST_file rt env (Form (Some f)) =
      \<lparr>reply = \<lparr>status = 400, body = ErrorBody
         (str ''Failed to extract readable text from PDF. This PDF might be:'' @
          bullet @ str ''Image-based (scanned document)'' @
          bullet @ str ''Password protected'' @
          bullet @ str ''Corrupted or using unsupported encoding'' @
          bullet @ str ''Contains only graphics/charts'' @
          [10, 10] @ str ''Please try:'' @
          bullet @ str ''Converting to text format first'' @
          bullet @ str ''Using OCR software if it's a scanned document'' @
          bullet @ str ''Ensuring the PDF has selectable text'')\<rparr>,
       attempted = [str ''jina-ai'', str ''gemini-vision'', str ''pdf-js''],
       analysed = None\<rparr>
    \<and> pdf_failure_causes =
        [str ''Image-based (scanned document)'', str ''Password protected'',
         str ''Corrupted or using unsupported encoding'', str ''Contains only graphics/charts'']"
proof -
  have "content (extraction_loop (lower rt) f (extractionMethods env) initial_extraction) = JStr []"
    using j v p by (rule pdf_all_rejected)
  then have "POST_file rt env (Form (Some f)) =
      \<lparr>reply = \<lparr>status = 400, body = ErrorBody pdf_failure_message\<rparr>,
       attempted = [str ''jina-ai'', str ''gemini-vision'', str ''pdf-js''],
       analysed = None\<rparr>"
    using j v by (simp add: POST_pdf [OF pdf] pdf_tried rejected_not_accepted)
  moreover have "pdf_failure_causes =
        [str ''Image-based (scanned document)'', str ''Password protected'',
         str ''Corrupted or using unsupported encoding'', str ''Contains only graphics/charts'']"
    by (simp add: pdf_failure_causes_def)
  ultimately show ?thesis
    by (simp only: pdf_failure_text)
qed

text \<open>
  The services \<open>nothing_works\<close>: the reader and the local parser throw, the vision
  model returns the hex text, on which the validator returns false.
\<close>

theorem all_strategies_fail_witness:
  "(file_type sample_pdf = str ''application/pdf'' \<or> has_suffix sample_runtime sample_pdf (str ''.pdf'')) \<and>
   rejected (lower sample_runtime) (extractPDFTextWithJina nothing_works sample_pdf) \<and>
   rejected (lower sample_runtime) (extractPDFWithGeminiVision nothing_works sample_pdf) \<and>
   rejected (lower sample_runtime) (extractPDFTextWithPDFJS nothing_works sample_pdf) \<and>
   status (reply (POST_file sample_runtime nothing_works (Form (Some sample_pdf)))) = 400 \<and>
   attempted (POST_file sample_runtime nothing_works (Form (Some sample_pdf))) =
     [str ''jina-ai'', str ''gemini-vision'', str ''pdf-js''] \<and>
   analysed (POST_file sample_runtime nothing_works (Form (Some sample_pdf))) = None"
proof -
  have j: "rejected (lower sample_runtime) (extractPDFTextWithJina nothing_works sample_pdf)"
    by (simp add: rejected_def nothing_works_def unavailable_def)
  have v: "rejected (lower sample_runtime) (extractPDFWithGeminiVision nothing_works sample_pdf)"
    by (simp add: rejected_def validate_extracted_def nothing_works_def sample_runtime_def
        hex_text_invalid)
  have p: "rejected (lower sample_runtime) (extractPDFTextWithPDFJS nothing_works sample_pdf)"
    by (simp add: rejected_def nothing_works_def unavailable_def)
  show ?thesis
    using all_strategies_fail [OF sample_pdf_is_pdf j v p] sample_pdf_is_pdf j v p
    by simp
qed

text \<open>
  Claim C3 as stated has absence of selectable text as the fourth cause. None of the
  four causes of the message mentions selectable text, the fourth is "Contains only
  graphics/charts"; selectable text is in the last of the remedies.
\<close>

theorem selectable_text_counterexample:
  "body (reply (POST_file sample_runtime nothing_works (Form (Some sample_pdf)))) =
     ErrorBody pdf_failure_message \<and>
   pdf_failure_message =
     str ''Failed to extract readable text from PDF. This PDF might be:'' @
     concat (map ((@) bullet) pdf_failure_causes) @
     [10, 10] @ str ''Please try:'' @
     concat (map ((@) bullet) pdf_failure_remedies) \<and>
   length pdf_failure_causes = 4 \<and>
   pdf_failure_causes ! 3 = str ''Contains only graphics/charts'' \<and>
   \<not> str_includes (concat pdf_failure_causes) (str ''selectable'') \<and>
   str_includes (pdf_failure_remedies ! 2) (str ''selectable text'')"
proof -
  have "rejected (lower sample_runtime) (extractPDFTextWithJina nothing_works sample_pdf)"
    by (simp add: rejected_def nothing_works_def unavailable_def)
  moreover have "rejected (lower sample_runtime) (extractPDFWithGeminiVision nothing_works sample_pdf)"
    by (simp add: rejected_def validate_extracted_def nothing_works_def sample_runtime_def
        hex_text_invalid)
  moreover have "rejected (lower sample_runtime) (extractPDFTextWithPDFJS nothing_works sample_pdf)"
    by (simp add: rejected_def nothing_works_def unavailable_def)
  ultimately have
    "content (extraction_loop (lower sample_runtime) sample_pdf (extractionMethods nothing_works)
       initial_extraction) = JStr []"
    by (rule pdf_all_rejected)
  then have "body (reply (POST_file sample_runtime nothing_works (Form (Some sample_pdf)))) =
      ErrorBody pdf_failure_message"
    by (simp add: POST_pdf [OF sample_pdf_is_pdf])
  moreover have "pdf_failure_message =
     str ''Failed to extract readable text from PDF. This PDF might be:'' @
     concat (map ((@) bullet) pdf_failure_causes) @
     [10, 10] @ str ''Please try:'' @
     concat (map ((@) bullet) pdf_failure_remedies)"
    by (simp add: pdf_failure_message_def)
  moreover have "length pdf_failure_causes = 4"
    by (simp add: pdf_failure_causes_def)
  moreover have "pdf_failure_causes ! 3 = str ''Contains only graphics/charts''"
    by (simp add: pdf_failure_causes_def)
  moreover have "\<not> str_includes (concat pdf_failure_causes) (str ''selectable'')"
    by code_simp
  moreover have "str_includes (pdf_failure_remedies ! 2) (str ''selectable text'')"
    by code_simp
  ultimately show ?thesis
    by blast
qed

text \<open>
  Claim C10. A form without the field \<open>file\<close> is answered with status 400 and the
  message "No file provided"; no extractor and no analysis is called.
\<close>

theorem no_file_provided:
  "POST_file rt env (Form None) =
     \<lparr>reply = \<lparr>status = 400, body = ErrorBody (str ''No file provided'')\<rparr>,
      attempted = [], analysed = None\<rparr>"
  by (simp add: POST_file_def)

lemma generate_returns:
  assumes "GEMINI_API_KEY env"
    and "generateContent env c n m = Responds s (Some b)"
    and "status_ok s"
    and "candidate_text b = Some r"
  shows "\<exists>a. generateEnhancedFileAnalysis rt env c n m = Inr a"
  using assms by (simp add: generateEnhancedFileAnalysis_def split: option.split)

lemma analyse_facts:
  "analysed (analyse rt env f c m calls) = Some (c, file_name f, m)"
  "attempted (analyse rt env f c m calls) = calls"
  by (simp_all add: analyse_def)

lemma sample_candidate_text:
  "candidate_text (candidate_body (JStr short_reply)) = Some (JStr short_reply)"
  by code_simp

lemma vision_works_generates:
  "\<exists>a. generateEnhancedFileAnalysis sample_runtime vision_works c n m = Inr a"
proof (rule generate_returns)
  show "GEMINI_API_KEY vision_works"
    by (simp add: vision_works_def)
  show "generateContent vision_works c n m =
      Responds 200 (Some (candidate_body (JStr short_reply)))"
    by (simp add: vision_works_def)
  show "status_ok 200"
    by (simp add: status_ok_def)
  show "candidate_text (candidate_body (JStr short_reply)) = Some (JStr short_reply)"
    by (rule sample_candidate_text)
qed

lemma envelope_loop:
  "extraction_loop (lower sample_runtime) sample_pdf (extractionMethods envelope_only)
     initial_extraction =
   \<lparr>content = envelope, extractionMethod = str ''jina-ai'',
    lastError = Some (Error (str ''unavailable'')),
    tried = [str ''jina-ai'', str ''gemini-vision'', str ''pdf-js'']\<rparr>"
  by (simp add: extractionMethods_def envelope_only_def unavailable_def try_method_def
      validate_extracted_def envelope_def initial_extraction_def)

text \<open>
  Claim C9. In the PDF branch a value on which the validator returns false is replaced
  by the empty string before the loop goes on. A value that is truthy and no string
  (the reader returns the member \<open>data\<close> of its response as it is, the vision model the
  member \<open>text\<close> of a candidate) makes the validator throw: the loop goes on to the next
  extractor with the content left at that value. After the loop a content that is a
  string is empty or has passed the validator, and a response with status 200 to a PDF
  upload means that the analysis was called with a text that is not empty and has
  passed the validator. A content that is no string is neither: with the services
  \<open>envelope_only\<close> the content after the loop is the object the reader returned, and
  the route answers 500 with the message of the TypeError, not 400.
\<close>

theorem content_after_loop:
  "(snd m f = Returns v \<and> validate_extracted (lower rt) v = Returns False \<longrightarrow>
      \<not> fst (try_method (lower rt) f m st) \<and>
      content (snd (try_method (lower rt) f m st)) = JStr [])
   \<and> (snd m f = Returns v \<and> truthy v \<and> (\<forall>s. v \<noteq> JStr s) \<longrightarrow>
      validate_extracted (lower rt) v = Throws TypeError \<and>
      \<not> fst (try_method (lower rt) f m st) \<and>
      content (snd (try_method (lower rt) f m st)) = v)
   \<and> (content (extraction_loop (lower rt) f (extractionMethods env) initial_extraction) = JStr t \<longrightarrow>
      t = [] \<or> isValidTextContent (lower rt) t)
   \<and> ((file_type f = str ''application/pdf'' \<or> has_suffix rt f (str ''.pdf'')) \<and>
      status (reply (POST_file rt env (Form (Some f)))) = 200 \<longrightarrow>
        (\<exists>t method. analysed (POST_file rt env (Form (Some f))) = Some (t, file_name f, method) \<and>
           t \<noteq> [] \<and> isValidTextContent (lower rt) t))
   \<and> content (extraction_loop (lower sample_runtime) sample_pdf (extractionMethods envelope_only)
        initial_extraction) = envelope
   \<and> POST_file sample_runtime envelope_only (Form (Some sample_pdf)) =
       \<lparr>reply = \<lparr>status = 500, body = ErrorBody
          (str ''Failed to analyze file: content.substring is not a function'')\<rparr>,
        attempted = [str ''jina-ai'', str ''gemini-vision'', str ''pdf-js''],
        analysed = None\<rparr>"
proof (intro conjI impI)
  assume "snd m f = Returns v \<and> validate_extracted (lower rt) v = Returns False"
  then show "\<not> fst (try_method (lower rt) f m st)"
    and "content (snd (try_method (lower rt) f m st)) = JStr []"
    by (simp_all add: try_method_def)
next
  assume a: "snd m f = Returns v \<and> truthy v \<and> (\<forall>s. v \<noteq> JStr s)"
  then show thr: "validate_extracted (lower rt) v = Throws TypeError"
    by (simp add: validate_extracted_throws)
  from a have "try_method (lower rt) f m st =
      (False, st\<lparr>content := v, extractionMethod := fst m, lastError := Some TypeError,
                 tried := tried st @ [fst m]\<rparr>)"
    using thr by (simp add: try_method_validator_throws)
  then show "\<not> fst (try_method (lower rt) f m st)"
    and "content (snd (try_method (lower rt) f m st)) = v"
    by simp_all
next
  have inv: "t' = [] \<or> isValidTextContent (lower rt) t'"
    if "content (extraction_loop (lower rt) f (extractionMethods env) initial_extraction) = JStr t'"
    for t'
  proof (rule loop_content [OF _ that])
    fix s
    assume "content initial_extraction = JStr s"
    then show "s = [] \<or> isValidTextContent (lower rt) s"
      by (simp add: initial_extraction_def)
  qed
  {
    assume "content (extraction_loop (lower rt) f (extractionMethods env) initial_extraction) = JStr t"
    then show "t = [] \<or> isValidTextContent (lower rt) t"
      by (rule inv)
  }
  {
    assume b: "(file_type f = str ''application/pdf'' \<or> has_suffix rt f (str ''.pdf'')) \<and>
        status (reply (POST_file rt env (Form (Some f)))) = 200"
    then have pdf: "file_type f = str ''application/pdf'' \<or> has_suffix rt f (str ''.pdf'')"
      by simp
    define final where
      "final = extraction_loop (lower rt) f (extractionMethods env) initial_extraction"
    from b have ok: "status (reply (POST_file rt env (Form (Some f)))) = 200"
      by simp
    have tr: "truthy (content final)"
    proof (rule ccontr)
      assume "\<not> truthy (content final)"
      then have "status (reply (POST_file rt env (Form (Some f)))) = 400"
        by (simp add: POST_pdf [OF pdf] final_def)
      with ok show False
        by simp
    qed
    have "\<exists>s. content final = JStr s"
    proof (rule ccontr)
      assume "\<not> (\<exists>s. content final = JStr s)"
      with tr have "status (reply (POST_file rt env (Form (Some f)))) = 500"
        by (cases "content final") (simp_all add: POST_pdf [OF pdf] final_def)
      with ok show False
        by simp
    qed
    then obtain s where s: "content final = JStr s"
      by blast
    with tr have ne: "s \<noteq> []"
      by simp
    from s have "s = [] \<or> isValidTextContent (lower rt) s"
      unfolding final_def by (rule inv)
    with ne have "isValidTextContent (lower rt) s"
      by simp
    moreover from s ne have "analysed (POST_file rt env (Form (Some f))) =
        Some (s, file_name f, extractionMethod final)"
      by (simp add: POST_pdf [OF pdf] final_def [symmetric] analyse_facts)
    ultimately show "\<exists>t method.
        analysed (POST_file rt env (Form (Some f))) = Some (t, file_name f, method) \<and>
        t \<noteq> [] \<and> isValidTextContent (lower rt) t"
      using ne by blast
  }
  show "content (extraction_loop (lower sample_runtime) sample_pdf (extractionMethods envelope_only)
        initial_extraction) = envelope"
    by (simp add: envelope_loop)
  show "POST_file sample_runtime envelope_only (Form (Some sample_pdf)) =
       \<lparr>reply = \<lparr>status = 500, body = ErrorBody
          (str ''Failed to analyze file: content.substring is not a function'')\<rparr>,
        attempted = [str ''jina-ai'', str ''gemini-vision'', str ''pdf-js''],
        analysed = None\<rparr>"
  proof -
    have "str ''Failed to analyze file: '' @ substring_error sample_runtime =
        str ''Failed to analyze file: content.substring is not a function''"
      by (simp add: sample_runtime_def str_def)
    then show ?thesis
      by (simp add: POST_pdf [OF sample_pdf_is_pdf] envelope_loop envelope_def)
  qed
qed

text \<open>
  The vision model of \<open>nothing_works\<close> returns the hex text, on which the validator
  returns false. The reader of \<open>envelope_only\<close> returns an object. With \<open>vision_works\<close>
  the route answers 200 and the analysis has received a validated text.
\<close>

theorem content_after_loop_witness:
  "extractPDFWithGeminiVision nothing_works sample_pdf = Returns (JStr hex_text) \<and>
   validate_extracted (lower sample_runtime) (JStr hex_text) = Returns False \<and>
   content (snd (try_method (lower sample_runtime) sample_pdf
     (str ''gemini-vision'', extractPDFWithGeminiVision nothing_works)
     (initial_extraction\<lparr>content := JStr cat_text\<rparr>))) = JStr [] \<and>
   extractPDFTextWithJina envelope_only sample_pdf = Returns envelope \<and>
   truthy envelope \<and>
   validate_extracted (lower sample_runtime) envelope = Throws TypeError \<and>
   content (snd (try_method (lower sample_runtime) sample_pdf
     (str ''jina-ai'', extractPDFTextWithJina envelope_only) initial_extraction)) = envelope \<and>
   content (extraction_loop (lower sample_runtime) sample_pdf
     (extractionMethods vision_works) initial_extraction) = JStr cat_text \<and>
   isValidTextContent (lower sample_runtime) cat_text \<and>
   (file_type sample_pdf = str ''application/pdf'' \<or>
      has_suffix sample_runtime sample_pdf (str ''.pdf'')) \<and>
   status (reply (POST_file sample_runtime vision_works (Form (Some sample_pdf)))) = 200 \<and>
   (\<exists>t method.
      analysed (POST_file sample_runtime vision_works (Form (Some sample_pdf))) =
        Some (t, file_name sample_pdf, method) \<and>
      t \<noteq> [] \<and> isValidTextContent (lower sample_runtime) t)"
proof -
  have r: "extractPDFWithGeminiVision nothing_works sample_pdf = Returns (JStr hex_text)"
    by (simp add: nothing_works_def)
  have bad: "validate_extracted (lower sample_runtime) (JStr hex_text) = Returns False"
    by (simp add: validate_extracted_def sample_runtime_def hex_text_invalid)
  have e: "extractPDFTextWithJina envelope_only sample_pdf = Returns envelope"
    by (simp add: envelope_only_def)
  have te: "truthy envelope" "\<forall>s. envelope \<noteq> JStr s"
    by (simp_all add: envelope_def)
  have j: "extractPDFTextWithJina vision_works sample_pdf = Throws (Error (str ''unavailable''))"
    by (simp add: vision_works_def unavailable_def)
  have v: "extractPDFWithGeminiVision vision_works sample_pdf = Returns (JStr cat_text)"
    by (simp add: vision_works_def)
  have ok: "isValidTextContent (lower sample_runtime) cat_text"
    by (simp add: sample_runtime_def cat_text_valid)
  have c: "content (extraction_loop (lower sample_runtime) sample_pdf
      (extractionMethods vision_works) initial_extraction) = JStr cat_text"
    using j v ok by (rule pdf_second_accepted)
  have "cat_text \<noteq> []"
    using ok by (rule valid_nonempty)
  moreover obtain a where "generateEnhancedFileAnalysis sample_runtime vision_works cat_text
      (file_name sample_pdf)
      (extractionMethod (extraction_loop (lower sample_runtime) sample_pdf
        (extractionMethods vision_works) initial_extraction)) = Inr a"
    using vision_works_generates by blast
  ultimately have ok200:
    "status (reply (POST_file sample_runtime vision_works (Form (Some sample_pdf)))) = 200"
    by (simp add: POST_pdf [OF sample_pdf_is_pdf] c analyse_def)
  show ?thesis
    using content_after_loop [of "(str ''gemini-vision'', extractPDFWithGeminiVision nothing_works)"
        sample_pdf "JStr hex_text" sample_runtime "initial_extraction\<lparr>content := JStr cat_text\<rparr>"
        vision_works cat_text]
      content_after_loop [of "(str ''jina-ai'', extractPDFTextWithJina envelope_only)"
        sample_pdf envelope sample_runtime initial_extraction vision_works cat_text]
      r bad e te sample_pdf_is_pdf ok200 c ok
    by simp
qed

lemma js_gt_length: "js_gt rt (JNum (Num (of_nat k))) n = (n < k)"
  by (simp add: js_gt_def)

lemma js_ge_length: "js_ge rt (JNum (Num (of_nat k))) n = (n \<le> k)"
  by (simp add: js_ge_def)

lemma length_gt_string:
  assumes "get_prop parsed k = Some (JStr s)"
  shows "length_gt rt parsed k n = (n < length s)"
  using assms by (auto simp: length_gt_def js_gt_length)

lemma length_ge_array:
  assumes "get_prop parsed k = Some (JArr xs)"
  shows "length_ge rt parsed k n = (n \<le> length xs)"
  using assms by (simp add: length_ge_def js_ge_length)

lemma length_undefined:
  assumes "get_prop parsed k = Some JUndefined"
  shows "\<not> length_gt rt parsed k n" and "\<not> length_ge rt parsed k n"
  using assms by (simp_all add: length_gt_def length_ge_def)

lemma fallback_members:
  "get_prop (fallbackAnalysis st e) (str ''summary'') = Some (JStr (fallback_summary st e))"
  "get_prop (fallbackAnalysis st e) (str ''features'') = Some (JArr (map JStr (fallback_features st e)))"
  "get_prop (fallbackAnalysis st e) (str ''useCases'') = Some (JArr (map JStr (fallback_useCases st)))"
  "get_prop (fallbackAnalysis st e) (str ''insights'') = Some (JStr (fallback_insights st e))"
  by (simp_all add: fallbackAnalysis_def member_of_def str_def)

lemma fallback_sizes:
  "fallback_summary st e \<noteq> []"
  "fallback_insights st e \<noteq> []"
  "length (fallback_features st e) = 5"
  "length (fallback_useCases st) = 3"
  by (simp_all add: fallback_summary_def fallback_insights_def fallback_features_def
      fallback_useCases_def str_def)

lemma fallback_long:
  "100 < length (fallback_summary st e)"
  "100 < length (fallback_insights st e)"
  by (simp_all add: fallback_summary_def fallback_insights_def str_def)

lemma low_quality:
  assumes "(\<exists>x. get_prop parsed (str ''summary'') = Some (JStr x) \<and> length x \<le> 100)
      \<or> (\<exists>xs. get_prop parsed (str ''features'') = Some (JArr xs) \<and> length xs < 3)
      \<or> (\<exists>xs. get_prop parsed (str ''useCases'') = Some (JArr xs) \<and> length xs < 2)
      \<or> (\<exists>x. get_prop parsed (str ''insights'') = Some (JStr x) \<and> length x \<le> 100)
      \<or> \<not> quality_ok rt parsed"
  shows "\<not> quality_ok rt parsed"
  using assms
  by (auto simp: quality_ok_def length_gt_string length_ge_array)

lemma fallback_of_statistics:
  "fallbackAnalysis (contentStats (lower rt) c) e =
      JObj
        [(str ''summary'', JStr
           (str ''This document contains '' @
            show_nat (wordCount_of c) @
            str '' words across '' @
            show_nat (length (sentences c)) @
            str '' sentences and '' @
            show_nat (length (paragraphs c)) @
            str '' paragraphs. The content focuses on '' @
            join_with (str '', '') (take 3 (topTopics_of (lower rt) c)) @
            str '' and appears to be '' @
            (if hasTechnicalTerms_of c
             then str ''technical documentation or educational material''
             else str ''informational content'') @
            str ''. '' @
            (if hasCode_of c
             then str (''It includes code examples and technical implementations, '' @
                       ''suggesting it's meant for developers or technical professionals.'')
             else str ''The content is primarily explanatory and conceptual in nature.'') @
            str '' The document was successfully extracted using '' @
            e @
            str '' and provides comprehensive coverage of its subject matter.'')),
         (str ''features'', JArr
           [JStr (str ''Comprehensive content with '' @
                  show_nat (wordCount_of c) @
                  str '' words organized in '' @
                  show_nat (length (paragraphs c)) @
                  str '' main sections''),
            JStr (str ''Primary topics include: '' @
                  join_with (str '', '') (take 4 (topTopics_of (lower rt) c))),
            JStr (if hasCode_of c
                  then str ''Contains code examples, functions, and technical implementations''
                  else str ''Focuses on conceptual explanations and theoretical content''),
            JStr (str ''Document structure: '' @
                  show_nat (length (sentences c)) @
                  str '' sentences across multiple sections''),
            JStr (str ''Successfully extracted using '' @
                  e @
                  str '' with high content quality'')]),
         (str ''technologies'', JArr (map JStr
           (if hasTechnicalTerms_of c then take 6 (topTopics_of (lower rt) c)
            else [str ''Document Processing'', str ''Text Analysis'',
                  str ''Content Management'']))),
         (str ''useCases'', JArr
           [JStr (str ''Reference material for professionals working with '' @
                  topic_or (topTopics_of (lower rt) c) 0 (str ''the documented subject matter'')),
            JStr (str ''Educational resource for learning about '' @
                  topic_or (topTopics_of (lower rt) c) 1 (str ''the covered topics'')),
            JStr (if hasCode_of c
                  then str ''Technical documentation for developers and engineers''
                  else str ''Knowledge base for research and information purposes'')]),
         (str ''insights'', JStr
           (str ''This document provides substantial content about '' @
            join_with (str '', '') (take 3 (topTopics_of (lower rt) c)) @
            str '' with '' @
            show_nat (wordCount_of c) @
            str ('' words of detailed information. The material is well-structured '' @
                 ''with '') @
            show_nat (length (paragraphs c)) @
            str '' main sections and appears to target '' @
            (if hasTechnicalTerms_of c
             then str ''technical professionals, developers, or engineers''
             else str ''general audiences interested in the subject matter'') @
            str ''. '' @
            (if hasCode_of c
             then str (''The inclusion of code examples and technical implementations '' @
                       ''makes it particularly valuable for hands-on learning and '' @
                       ''practical application.'')
             else str (''The explanatory nature of the content makes it suitable for '' @
                       ''educational and reference purposes.'')) @
            str '' The successful extraction using '' @
            e @
            str ('' ensures high content fidelity, making this document valuable '' @
                 ''for knowledge sharing, training, and reference purposes.'')))]"
  by (simp add: fallbackAnalysis_def contentStats_def fallback_summary_def
      fallback_features_def fallback_technologies_def fallback_useCases_def
      fallback_insights_def)

lemma sample_doc_statistics:
  "wordCount_of sample_doc = 24"
  "length (sentences sample_doc) = 3"
  "length (paragraphs sample_doc) = 2"
  "hasCode_of sample_doc"
  "hasTechnicalTerms_of sample_doc"
  "topTopics_of (map ascii_lower) sample_doc =
     [str ''server'', str ''data'', str ''stores'', str ''database'', str ''every'',
      str ''request'', str ''reads'', str ''function'']"
  by code_simp+

lemma sample_doc_numbers:
  "show_nat 24 = str ''24''" "show_nat 3 = str ''3''" "show_nat 2 = str ''2''"
  by code_simp+

text \<open>
  Claim C4. When the model call succeeds (a key, a response with an ok status, a body
  with a candidate text) and the text holds a JSON object whose summary is a string of
  at most 100 characters, or which has fewer than 3 features, fewer than 2 use cases,
  insights of at most 100 characters, or otherwise fails the quality condition, the
  function returns the fallback object, whose five members are built from the
  statistics of the content (the numbers of words, sentences and paragraphs, the
  topics, whether it has code and technical terms) and the extraction method as
  written out below. Every fallback object has a non-empty summary, at least 3
  features, at least 2 use cases and non-empty insights.
\<close>

theorem low_quality_reply_discarded:
  assumes key: "GEMINI_API_KEY env"
    and call: "generateContent env c n e = Responds s (Some data)"
    and ok: "status_ok s"
    and body_text: "candidate_text data = Some (JStr t)"
    and obj: "match_braces t = Some j"
    and parse: "json_parse rt j = Some parsed"
    and low: "(\<exists>x. get_prop parsed (str ''summary'') = Some (JStr x) \<and> length x \<le> 100)
      \<or> (\<exists>xs. get_prop parsed (str ''features'') = Some (JArr xs) \<and> length xs < 3)
      \<or> (\<exists>xs. get_prop parsed (str ''useCases'') = Some (JArr xs) \<and> length xs < 2)
      \<or> (\<exists>x. get_prop parsed (str ''insights'') = Some (JStr x) \<and> length x \<le> 100)
      \<or> \<not> quality_ok rt parsed"
  shows "generateEnhancedFileAnalysis rt env c n e =
      Inr (fallbackAnalysis (contentStats (lower rt) c) e)
    \<and> fallbackAnalysis (contentStats (lower rt) c) e =
      JObj
        [(str ''summary'', JStr
           (str ''This document contains '' @
            show_nat (wordCount_of c) @
            str '' words across '' @
            show_nat (length (sentences c)) @
            str '' sentences and '' @
            show_nat (length (paragraphs c)) @
            str '' paragraphs. The content focuses on '' @
            join_with (str '', '') (take 3 (topTopics_of (lower rt) c)) @
            str '' and appears to be '' @
            (if hasTechnicalTerms_of c
             then str ''technical documentation or educational material''
             else str ''informational content'') @
            str ''. '' @
            (if hasCode_of c
             then str (''It includes code examples and technical implementations, '' @
                       ''suggesting it's meant for developers or technical professionals.'')
             else str ''The content is primarily explanatory and conceptual in nature.'') @
            str '' The document was successfully extracted using '' @
            e @
            str '' and provides comprehensive coverage of its subject matter.'')),
         (str ''features'', JArr
           [JStr (str ''Comprehensive content with '' @
                  show_nat (wordCount_of c) @
                  str '' words organized in '' @
                  show_nat (length (paragraphs c)) @
                  str '' main sections''),
            JStr (str ''Primary topics include: '' @
                  join_with (str '', '') (take 4 (topTopics_of (lower rt) c))),
            JStr (if hasCode_of c
                  then str ''Contains code examples, functions, and technical implementations''
                  else str ''Focuses on conceptual explanations and theoretical content''),
            JStr (str ''Document structure: '' @
                  show_nat (length (sentences c)) @
                  str '' sentences across multiple sections''),
            JStr (str ''Successfully extracted using '' @
                  e @
                  str '' with high content quality'')]),
         (str ''technologies'', JArr (map JStr
           (if hasTechnicalTerms_of c then take 6 (topTopics_of (lower rt) c)
            else [str ''Document Processing'', str ''Text Analysis'',
                  str ''Content Management'']))),
         (str ''useCases'', JArr
           [JStr (str ''Reference material for professionals working with '' @
                  topic_or (topTopics_of (lower rt) c) 0 (str ''the documented subject matter'')),
            JStr (str ''Educational resource for learning about '' @
                  topic_or (topTopics_of (lower rt) c) 1 (str ''the covered topics'')),
            JStr (if hasCode_of c
                  then str ''Technical documentation for developers and engineers''
                  else str ''Knowledge base for research and information purposes'')]),
         (str ''insights'', JStr
           (str ''This document provides substantial content about '' @
            join_with (str '', '') (take 3 (topTopics_of (lower rt) c)) @
            str '' with '' @
            show_nat (wordCount_of c) @
            str ('' words of detailed information. The material is well-structured '' @
                 ''with '') @
            show_nat (length (paragraphs c)) @
            str '' main sections and appears to target '' @
            (if hasTechnicalTerms_of c
             then str ''technical professionals, developers, or engineers''
             else str ''general audiences interested in the subject matter'') @
            str ''. '' @
            (if hasCode_of c
             then str (''The inclusion of code examples and technical implementations '' @
                       ''makes it particularly valuable for hands-on learning and '' @
                       ''practical application.'')
             else str (''The explanatory nature of the content makes it suitable for '' @
                       ''educational and reference purposes.'')) @
            str '' The successful extraction using '' @
            e @
            str ('' ensures high content fidelity, making this document valuable '' @
                 ''for knowledge sharing, training, and reference purposes.'')))]
    \<and> (\<exists>summary features useCases insights.
        get_prop (fallbackAnalysis st m) (str ''summary'') = Some (JStr summary) \<and>
        summary \<noteq> [] \<and>
        get_prop (fallbackAnalysis st m) (str ''features'') = Some (JArr features) \<and>
        3 \<le> length features \<and>
        get_prop (fallbackAnalysis st m) (str ''useCases'') = Some (JArr useCases) \<and>
        2 \<le> length useCases \<and>
        get_prop (fallbackAnalysis st m) (str ''insights'') = Some (JStr insights) \<and>
        insights \<noteq> [])"
proof (intro conjI)
  have "\<not> quality_ok rt parsed"
    using low by (rule low_quality)
  then have "accepted_reply rt (JStr t) = None"
    by (simp add: accepted_reply_def obj parse)
  then show "generateEnhancedFileAnalysis rt env c n e =
      Inr (fallbackAnalysis (contentStats (lower rt) c) e)"
    by (simp add: generateEnhancedFileAnalysis_def key call ok body_text)
  show "fallbackAnalysis (contentStats (lower rt) c) e =
      JObj
        [(str ''summary'', JStr
           (str ''This document contains '' @
            show_nat (wordCount_of c) @
            str '' words across '' @
            show_nat (length (sentences c)) @
            str '' sentences and '' @
            show_nat (length (paragraphs c)) @
            str '' paragraphs. The content focuses on '' @
            join_with (str '', '') (take 3 (topTopics_of (lower rt) c)) @
            str '' and appears to be '' @
            (if hasTechnicalTerms_of c
             then str ''technical documentation or educational material''
             else str ''informational content'') @
            str ''. '' @
            (if hasCode_of c
             then str (''It includes code examples and technical implementations, '' @
                       ''suggesting it's meant for developers or technical professionals.'')
             else str ''The content is primarily explanatory and conceptual in nature.'') @
            str '' The document was successfully extracted using '' @
            e @
            str '' and provides comprehensive coverage of its subject matter.'')),
         (str ''features'', JArr
           [JStr (str ''Comprehensive content with '' @
                  show_nat (wordCount_of c) @
                  str '' words organized in '' @
                  show_nat (length (paragraphs c)) @
                  str '' main sections''),
            JStr (str ''Primary topics include: '' @
                  join_with (str '', '') (take 4 (topTopics_of (lower rt) c))),
            JStr (if hasCode_of c
                  then str ''Contains code examples, functions, and technical implementations''
                  else str ''Focuses on conceptual explanations and theoretical content''),
            JStr (str ''Document structure: '' @
                  show_nat (length (sentences c)) @
                  str '' sentences across multiple sections''),
            JStr (str ''Successfully extracted using '' @
                  e @
                  str '' with high content quality'')]),
         (str ''technologies'', JArr (map JStr
           (if hasTechnicalTerms_of c then take 6 (topTopics_of (lower rt) c)
            else [str ''Document Processing'', str ''Text Analysis'',
                  str ''Content Management'']))),
         (str ''useCases'', JArr
           [JStr (str ''Reference material for professionals working with '' @
                  topic_or (topTopics_of (lower rt) c) 0 (str ''the documented subject matter'')),
            JStr (str ''Educational resource for learning about '' @
                  topic_or (topTopics_of (lower rt) c) 1 (str ''the covered topics'')),
            JStr (if hasCode_of c
                  then str ''Technical documentation for developers and engineers''
                  else str ''Knowledge base for research and information purposes'')]),
         (str ''insights'', JStr
           (str ''This document provides substantial content about '' @
            join_with (str '', '') (take 3 (topTopics_of (lower rt) c)) @
            str '' with '' @
            show_nat (wordCount_of c) @
            str ('' words of detailed information. The material is well-structured '' @
                 ''with '') @
            show_nat (length (paragraphs c)) @
            str '' main sections and appears to target '' @
            (if hasTechnicalTerms_of c
             then str ''technical professionals, developers, or engineers''
             else str ''general audiences interested in the subject matter'') @
            str ''. '' @
            (if hasCode_of c
             then str (''The inclusion of code examples and technical implementations '' @
                       ''makes it particularly valuable for hands-on learning and '' @
                       ''practical application.'')
             else str (''The explanatory nature of the content makes it suitable for '' @
                       ''educational and reference purposes.'')) @
            str '' The successful extraction using '' @
            e @
            str ('' ensures high content fidelity, making this document valuable '' @
                 ''for knowledge sharing, training, and reference purposes.'')))]"
    by (rule fallback_of_statistics)
  show "\<exists>summary features useCases insights.
      get_prop (fallbackAnalysis st m) (str ''summary'') = Some (JStr summary) \<and>
      summary \<noteq> [] \<and>
      get_prop (fallbackAnalysis st m) (str ''features'') = Some (JArr features) \<and>
      3 \<le> length features \<and>
      get_prop (fallbackAnalysis st m) (str ''useCases'') = Some (JArr useCases) \<and>
      2 \<le> length useCases \<and>
      get_prop (fallbackAnalysis st m) (str ''insights'') = Some (JStr insights) \<and>
      insights \<noteq> []"
    by (simp add: fallback_members fallback_sizes)
qed

text \<open>
  The model answers with \<open>short_reply\<close>, whose object has the summary "Too short". For
  the document \<open>sample_doc\<close>, of 24 words, 3 sentences and 2 paragraphs, the function
  returns the object below.
\<close>

theorem low_quality_reply_discarded_witness:
  "GEMINI_API_KEY vision_works \<and>
   generateContent vision_works sample_doc (str ''Report.PDF'') (str ''gemini-vision'') =
     Responds 200 (Some (candidate_body (JStr short_reply))) \<and>
   status_ok 200 \<and>
   candidate_text (candidate_body (JStr short_reply)) = Some (JStr short_reply) \<and>
   match_braces short_reply = Some short_json \<and>
   json_parse sample_runtime short_json = Some short_parsed \<and>
   get_prop short_parsed (str ''summary'') = Some (JStr (str ''Too short'')) \<and>
   length (str ''Too short'') \<le> 100 \<and>
   generateEnhancedFileAnalysis sample_runtime vision_works sample_doc (str ''Report.PDF'')
       (str ''gemini-vision'') =
     Inr (JObj [(str ''summary'', JStr
             (str (''This document contains 24 words across 3 sentences and 2 '' @
                   ''paragraphs. The content focuses on server, data, stores and '' @
                   ''appears to be technical documentation or educational material. '' @
                   ''It includes code examples and technical implementations, '' @
                   ''suggesting it's meant for developers or technical '' @
                   ''professionals. The document was successfully extracted using '' @
                   ''gemini-vision and provides comprehensive coverage of its '' @
                   ''subject matter.''))),
           (str ''features'', JArr
             [JStr (str ''Comprehensive content with 24 words organized in 2 main sections''),
              JStr (str ''Primary topics include: server, data, stores, database''),
              JStr (str ''Contains code examples, functions, and technical implementations''),
              JStr (str ''Document structure: 3 sentences across multiple sections''),
              JStr (str (''Successfully extracted using gemini-vision with high content '' @
                         ''quality''))]),
           (str ''technologies'', JArr
             [JStr (str ''server''),
              JStr (str ''data''),
              JStr (str ''stores''),
              JStr (str ''database''),
              JStr (str ''every''),
              JStr (str ''request'')]),
           (str ''useCases'', JArr
             [JStr (str ''Reference material for professionals working with server''),
              JStr (str ''Educational resource for learning about data''),
              JStr (str ''Technical documentation for developers and engineers'')]),
           (str ''insights'', JStr
             (str (''This document provides substantial content about server, data, '' @
                   ''stores with 24 words of detailed information. The material is '' @
                   ''well-structured with 2 main sections and appears to target '' @
                   ''technical professionals, developers, or engineers. The '' @
                   ''inclusion of code examples and technical implementations makes '' @
                   ''it particularly valuable for hands-on learning and practical '' @
                   ''application. The successful extraction using gemini-vision '' @
                   ''ensures high content fidelity, making this document valuable '' @
                   ''for knowledge sharing, training, and reference purposes.'')))])"
proof -
  have key: "GEMINI_API_KEY vision_works"
    by (simp add: vision_works_def)
  have call: "generateContent vision_works sample_doc (str ''Report.PDF'') (str ''gemini-vision'') =
      Responds 200 (Some (candidate_body (JStr short_reply)))"
    by (simp add: vision_works_def)
  have ok: "status_ok 200"
    by (simp add: status_ok_def)
  have obj: "match_braces short_reply = Some short_json"
    by code_simp
  have parse: "json_parse sample_runtime short_json = Some short_parsed"
    by (simp add: sample_runtime_def)
  have summary: "get_prop short_parsed (str ''summary'') = Some (JStr (str ''Too short''))"
    by (simp add: short_parsed_def member_of_def)
  have short: "length (str ''Too short'') \<le> 100"
    by (simp add: str_def)
  from summary short have low:
    "(\<exists>x. get_prop short_parsed (str ''summary'') = Some (JStr x) \<and> length x \<le> 100)
      \<or> (\<exists>xs. get_prop short_parsed (str ''features'') = Some (JArr xs) \<and> length xs < 3)
      \<or> (\<exists>xs. get_prop short_parsed (str ''useCases'') = Some (JArr xs) \<and> length xs < 2)
      \<or> (\<exists>x. get_prop short_parsed (str ''insights'') = Some (JStr x) \<and> length x \<le> 100)
      \<or> \<not> quality_ok sample_runtime short_parsed"
    by blast
  have lc: "lower sample_runtime = map ascii_lower"
    by (simp add: sample_runtime_def)
  have joined:
    "join_with (str '', '') (take 3 (topTopics_of (map ascii_lower) sample_doc)) =
       str ''server, data, stores''"
    "join_with (str '', '') (take 4 (topTopics_of (map ascii_lower) sample_doc)) =
       str ''server, data, stores, database''"
    unfolding sample_doc_statistics by code_simp+
  have "generateEnhancedFileAnalysis sample_runtime vision_works sample_doc (str ''Report.PDF'')
       (str ''gemini-vision'') =
     Inr (JObj [(str ''summary'', JStr
             (str (''This document contains 24 words across 3 sentences and 2 '' @
                   ''paragraphs. The content focuses on server, data, stores and '' @
                   ''appears to be technical documentation or educational material. '' @
                   ''It includes code examples and technical implementations, '' @
                   ''suggesting it's meant for developers or technical '' @
                   ''professionals. The document was successfully extracted using '' @
                   ''gemini-vision and provides comprehensive coverage of its '' @
                   ''subject matter.''))),
           (str ''features'', JArr
             [JStr (str ''Comprehensive content with 24 words organized in 2 main sections''),
              JStr (str ''Primary topics include: server, data, stores, database''),
              JStr (str ''Contains code examples, functions, and technical implementations''),
              JStr (str ''Document structure: 3 sentences across multiple sections''),
              JStr (str (''Successfully extracted using gemini-vision with high content '' @
                         ''quality''))]),
           (str ''technologies'', JArr
             [JStr (str ''server''),
              JStr (str ''data''),
              JStr (str ''stores''),
              JStr (str ''database''),
              JStr (str ''every''),
              JStr (str ''request'')]),
           (str ''useCases'', JArr
             [JStr (str ''Reference material for professionals working with server''),
              JStr (str ''Educational resource for learning about data''),
              JStr (str ''Technical documentation for developers and engineers'')]),
           (str ''insights'', JStr
             (str (''This document provides substantial content about server, data, '' @
                   ''stores with 24 words of detailed information. The material is '' @
                   ''well-structured with 2 main sections and appears to target '' @
                   ''technical professionals, developers, or engineers. The '' @
                   ''inclusion of code examples and technical implementations makes '' @
                   ''it particularly valuable for hands-on learning and practical '' @
                   ''application. The successful extraction using gemini-vision '' @
                   ''ensures high content fidelity, making this document valuable '' @
                   ''for knowledge sharing, training, and reference purposes.'')))])"
    using low_quality_reply_discarded [OF key call ok sample_candidate_text obj parse low,
        where st = "contentStats (map ascii_lower) sample_doc" and m = "str ''gemini-vision''"]
    by (simp add: lc sample_doc_statistics sample_doc_numbers topic_or_def joined str_def)
  then show ?thesis
    using key call ok sample_candidate_text obj parse summary short
    by blast
qed

lemma or_else_undefined: "or_else JUndefined d = d" "or_else JNull d = d"
  by (simp_all add: or_else_def)

lemma readme_missing:
  "readme_text rt Rejects = []"
  "readme_text rt (Responds s None) = []"
  "get_prop d (str ''content'') = None \<Longrightarrow> readme_text rt (Responds s (Some d)) = []"
  "get_prop d (str ''content'') = Some JUndefined \<Longrightarrow> readme_text rt (Responds s (Some d)) = []"
  by (simp_all add: readme_text_def json_of_def)

lemma readme_no_content:
  assumes "the_member d (str ''content'') = JUndefined"
  shows "readme_text rt (Responds s (Some d)) = []"
proof (cases "get_prop d (str ''content'')")
  case None
  then show ?thesis
    by (simp add: readme_missing)
next
  case (Some x)
  with assms have "x = JUndefined"
    by (simp add: the_member_def)
  with Some show ?thesis
    by (simp add: readme_missing)
qed

text \<open>
  Claim C8, as amended. When the three requests for the repository, its contributors
  and its languages give JSON bodies (the repository's not \<open>null\<close>), \<open>fetchRepoData\<close>
  returns, whatever the README request does. The name, the stars, the forks and the two
  dates are the members of the repository object, unchanged. The description, the
  language and the topics are the members when truthy, and the empty string,
  "Unknown" and the empty list otherwise, so also when the member is missing. The
  contributors and the languages are the bodies of their responses when truthy, and
  the empty list and the empty object otherwise. The README is the empty string when
  its request rejects, its body is no JSON, or its body has no content.
\<close>

theorem fetchRepoData_defaults:
  assumes info: "fetch_repo gh owner repo = Responds s1 (Some info)"
    and obj: "info \<noteq> JNull \<and> info \<noteq> JUndefined"
    and cs: "fetch_contributors gh owner repo = Responds s2 (Some cs)"
    and ls: "fetch_languages gh owner repo = Responds s3 (Some ls)"
  shows "\<exists>rd. fetchRepoData rt gh owner repo = Returns rd \<and>
      name rd = the_member info (str ''name'') \<and>
      stars rd = the_member info (str ''stargazers_count'') \<and>
      forks rd = the_member info (str ''forks_count'') \<and>
      created_at rd = the_member info (str ''created_at'') \<and>
      updated_at rd = the_member info (str ''updated_at'') \<and>
      description rd =
        (if truthy (the_member info (str ''description'')) then the_member info (str ''description'')
         else JStr []) \<and>
      language rd =
        (if truthy (the_member info (str ''language'')) then the_member info (str ''language'')
         else JStr (str ''Unknown'')) \<and>
      topics rd =
        (if truthy (the_member info (str ''topics'')) then the_member info (str ''topics'')
         else JArr []) \<and>
      contributors rd = (if truthy cs then cs else JArr []) \<and>
      languages rd = (if truthy ls then ls else JObj []) \<and>
      (the_member info (str ''description'') = JUndefined \<or> the_member info (str ''description'') = JNull
         \<longrightarrow> description rd = JStr []) \<and>
      (the_member info (str ''language'') = JUndefined \<or> the_member info (str ''language'') = JNull
         \<longrightarrow> language rd = JStr (str ''Unknown'')) \<and>
      (the_member info (str ''topics'') = JUndefined \<or> the_member info (str ''topics'') = JNull
         \<longrightarrow> topics rd = JArr []) \<and>
      (fetch_readme gh owner repo = Rejects \<or>
       (\<exists>s. fetch_readme gh owner repo = Responds s None) \<or>
       (\<exists>s d. fetch_readme gh owner repo = Responds s (Some d) \<and>
          the_member d (str ''content'') = JUndefined)
         \<longrightarrow> readme rd = [])"
proof -
  have r: "readme_text rt (fetch_readme gh owner repo) = []"
    if "fetch_readme gh owner repo = Rejects \<or>
       (\<exists>s. fetch_readme gh owner repo = Responds s None) \<or>
       (\<exists>s d. fetch_readme gh owner repo = Responds s (Some d) \<and>
          the_member d (str ''content'') = JUndefined)"
    using that
    by (auto simp: readme_missing readme_no_content)
  have "fetchRepoData rt gh owner repo = Returns
      \<lparr>name = the_member info (str ''name''),
       description = or_else (the_member info (str ''description'')) (JStr []),
       stars = the_member info (str ''stargazers_count''),
       forks = the_member info (str ''forks_count''),
       language = or_else (the_member info (str ''language'')) (JStr (str ''Unknown'')),
       created_at = the_member info (str ''created_at''),
       updated_at = the_member info (str ''updated_at''),
       topics = or_else (the_member info (str ''topics'')) (JArr []),
       contributors = or_else cs (JArr []),
       languages = or_else ls (JObj []),
       readme = readme_text rt (fetch_readme gh owner repo)\<rparr>"
    using obj by (simp add: fetchRepoData_def info cs ls json_of_def)
  then show ?thesis
    using r by (auto simp: or_else_def)
qed

text \<open>
  The sample repository: no description, language or topics, a README answered with
  404 and a body without content.
\<close>

theorem fetchRepoData_defaults_witness:
  "fetch_repo sample_upstream (str ''octo'') (str ''demo'') = Responds 200 (Some sample_info) \<and>
   sample_info \<noteq> JNull \<and> sample_info \<noteq> JUndefined \<and>
   fetch_contributors sample_upstream (str ''octo'') (str ''demo'') = Responds 200 (Some JNull) \<and>
   fetch_languages sample_upstream (str ''octo'') (str ''demo'') =
     Responds 200 (Some (JObj [(str ''C'', JNum (Num 10))])) \<and>
   the_member sample_info (str ''description'') = JNull \<and>
   the_member sample_info (str ''language'') = JNull \<and>
   the_member sample_info (str ''topics'') = JUndefined \<and>
   fetch_readme sample_upstream (str ''octo'') (str ''demo'') = Responds 404 (Some not_found) \<and>
   the_member not_found (str ''content'') = JUndefined \<and>
   (\<exists>rd. fetchRepoData sample_runtime sample_upstream (str ''octo'') (str ''demo'') = Returns rd \<and>
      name rd = JStr (str ''demo'') \<and>
      description rd = JStr [] \<and>
      language rd = JStr (str ''Unknown'') \<and>
      topics rd = JArr [] \<and>
      readme rd = [])"
proof -
  have info: "fetch_repo sample_upstream (str ''octo'') (str ''demo'') = Responds 200 (Some sample_info)"
    by (simp add: sample_upstream_def)
  have obj: "sample_info \<noteq> JNull \<and> sample_info \<noteq> JUndefined"
    by (simp add: sample_info_def)
  have cs: "fetch_contributors sample_upstream (str ''octo'') (str ''demo'') = Responds 200 (Some JNull)"
    by (simp add: sample_upstream_def)
  have ls: "fetch_languages sample_upstream (str ''octo'') (str ''demo'') =
     Responds 200 (Some (JObj [(str ''C'', JNum (Num 10))]))"
    by (simp add: sample_upstream_def)
  have rm: "fetch_readme sample_upstream (str ''octo'') (str ''demo'') = Responds 404 (Some not_found)"
    by (simp add: sample_upstream_def)
  have members:
    "the_member sample_info (str ''name'') = JStr (str ''demo'')"
    "the_member sample_info (str ''description'') = JNull"
    "the_member sample_info (str ''language'') = JNull"
    "the_member sample_info (str ''topics'') = JUndefined"
    "the_member not_found (str ''content'') = JUndefined"
    by code_simp+
  obtain rd where rd: "fetchRepoData sample_runtime sample_upstream (str ''octo'') (str ''demo'') = Returns rd"
      "name rd = the_member sample_info (str ''name'')"
      "description rd =
        (if truthy (the_member sample_info (str ''description''))
         then the_member sample_info (str ''description'') else JStr [])"
      "language rd =
        (if truthy (the_member sample_info (str ''language''))
         then the_member sample_info (str ''language'') else JStr (str ''Unknown''))"
      "the_member sample_info (str ''topics'') = JUndefined \<or>
       the_member sample_info (str ''topics'') = JNull \<longrightarrow> topics rd = JArr []"
      "fetch_readme sample_upstream (str ''octo'') (str ''demo'') = Rejects \<or>
       (\<exists>s. fetch_readme sample_upstream (str ''octo'') (str ''demo'') = Responds s None) \<or>
       (\<exists>s d. fetch_readme sample_upstream (str ''octo'') (str ''demo'') = Responds s (Some d) \<and>
          the_member d (str ''content'') = JUndefined)
         \<longrightarrow> readme rd = []"
    using fetchRepoData_defaults [OF info obj cs ls, of sample_runtime] by blast
  from rd(6) rm members(5) have "readme rd = []"
    by blast
  with rd members have "\<exists>rd. fetchRepoData sample_runtime sample_upstream (str ''octo'') (str ''demo'') = Returns rd \<and>
      name rd = JStr (str ''demo'') \<and>
      description rd = JStr [] \<and>
      language rd = JStr (str ''Unknown'') \<and>
      topics rd = JArr [] \<and>
      readme rd = []"
    by auto
  with info obj cs ls rm members show ?thesis
    by blast
qed

text \<open>
  Claim C8 as stated has the other returned fields taken from the upstream responses
  unchanged. The contributors endpoint of the sample answers \<open>null\<close>, and the returned
  contributors are the empty list.
\<close>

theorem contributors_null_counterexample:
  "fetch_contributors sample_upstream (str ''octo'') (str ''demo'') = Responds 200 (Some JNull) \<and>
   fetchRepoData sample_runtime sample_upstream (str ''octo'') (str ''demo'') = Returns sample_repoData \<and>
   contributors sample_repoData = JArr [] \<and>
   contributors sample_repoData \<noteq> JNull"
  by code_simp

lemma generateAnalysis_response:
  assumes "gemini_key gh" and "\<not> prompt_throws rd"
    and "fetch_analysis gh rd = Responds s (Some data)"
  shows "generateAnalysis rt gh rd =
     (case candidate_text data of
        None \<Rightarrow> Throws TypeError
      | Some (JStr raw) \<Rightarrow>
          (case match_braces raw of
             None \<Rightarrow> Returns (degraded rd raw)
           | Some m \<Rightarrow>
               (case json_parse rt m of
                  None \<Rightarrow> Returns (degraded rd raw)
                | Some parsed \<Rightarrow> Returns parsed))
      | Some other \<Rightarrow> Throws TypeError)"
  using assms by (simp add: generateAnalysis_def json_of_def)

lemma prompt_exception:
  assumes "gemini_key gh" and "prompt_throws rd"
  shows "generateAnalysis rt gh rd = Throws TypeError"
  using assms by (simp add: generateAnalysis_def)

lemma degraded_members:
  "degraded rd raw =
     JObj [(str ''summary'', JStr (take 200 raw @ str ''...'')),
           (str ''features'', JArr [JStr (str ''Feature extraction failed'')]),
           (str ''technologies'', JArr [language rd]),
           (str ''useCases'', JArr [JStr (str ''Use case analysis failed'')]),
           (str ''insights'', JStr (str ''Additional analysis unavailable''))]"
  by (simp add: degraded_def)

text \<open>
  Claim C7, as amended. Once the prompt is built (the name, the description, the
  language and the topics have strings), \<open>generateAnalysis\<close> reads the body of the
  response and never its status. When the body has no candidate text (as the error
  body of a status that is not ok) it throws, and the route answers 500 "Failed to
  analyze repository". When the body has a candidate text from which no JSON object is
  parsed, it returns the degraded result: the summary is the first 200 characters of
  the raw text and three dots, the features are "Feature extraction failed", the
  technologies are the language of the repository, the use cases are "Use case
  analysis failed" and the insights are "Additional analysis unavailable".
\<close>

theorem analysis_status_not_read:
  assumes key: "gemini_key gh"
    and prompt: "\<not> prompt_throws rd"
    and resp: "fetch_analysis gh rd = Responds s (Some data)"
  shows "(candidate_text data = None \<longrightarrow>
        generateAnalysis rt gh rd = Throws TypeError \<and>
        (get_prop b (str ''repoUrl'') = Some (JStr url) \<and> match_repo url = Some (owner, repo) \<and>
         fetchRepoData rt gh owner repo = Returns rd \<longrightarrow>
           POST_repo rt gh (Some b) =
             \<lparr>repo_status = 500, repo_body = RepoError (str ''Failed to analyze repository'')\<rparr>))
    \<and> (candidate_text data = Some (JStr raw) \<and>
       (match_braces raw = None \<or> (\<exists>m. match_braces raw = Some m \<and> json_parse rt m = None)) \<longrightarrow>
        generateAnalysis rt gh rd =
          Returns (JObj
            [(str ''summary'', JStr (take 200 raw @ str ''...'')),
             (str ''features'', JArr [JStr (str ''Feature extraction failed'')]),
             (str ''technologies'', JArr [language rd]),
             (str ''useCases'', JArr [JStr (str ''Use case analysis failed'')]),
             (str ''insights'', JStr (str ''Additional analysis unavailable''))]) \<and>
        get_prop (degraded rd raw) (str ''summary'') = Some (JStr (take 200 raw @ str ''...'')))"
proof (intro conjI impI)
  assume none: "candidate_text data = None"
  then show throws: "generateAnalysis rt gh rd = Throws TypeError"
    by (simp add: generateAnalysis_response [OF key prompt resp])
  assume "get_prop b (str ''repoUrl'') = Some (JStr url) \<and> match_repo url = Some (owner, repo) \<and>
         fetchRepoData rt gh owner repo = Returns rd"
  then show "POST_repo rt gh (Some b) =
      \<lparr>repo_status = 500, repo_body = RepoError (str ''Failed to analyze repository'')\<rparr>"
    by (simp add: POST_repo_def throws failed_repo_def)
next
  assume a: "candidate_text data = Some (JStr raw) \<and>
       (match_braces raw = None \<or> (\<exists>m. match_braces raw = Some m \<and> json_parse rt m = None))"
  then have "generateAnalysis rt gh rd = Returns (degraded rd raw)"
    by (auto simp: generateAnalysis_response [OF key prompt resp])
  then show "generateAnalysis rt gh rd =
      Returns (JObj
        [(str ''summary'', JStr (take 200 raw @ str ''...'')),
         (str ''features'', JArr [JStr (str ''Feature extraction failed'')]),
         (str ''technologies'', JArr [language rd]),
         (str ''useCases'', JArr [JStr (str ''Use case analysis failed'')]),
         (str ''insights'', JStr (str ''Additional analysis unavailable''))])"
    by (simp only: degraded_members)
  show "get_prop (degraded rd raw) (str ''summary'') = Some (JStr (take 200 raw @ str ''...''))"
    by (simp add: degraded_def member_of_def str_def)
qed

lemma sample_fetch: 
  "fetchRepoData sample_runtime sample_upstream (str ''octo'') (str ''demo'') = Returns sample_repoData"
  by code_simp

lemma sample_match: "match_repo (str ''https://github.com/octo/demo'') = Some (str ''octo'', str ''demo'')"
  by code_simp

text \<open>
  The sample upstream answers the prompt with status 429 and an error body: the route
  answers 500. The busy upstream answers with status 503 and a candidate text without
  braces: the degraded result is returned.
\<close>

theorem analysis_status_not_read_witness:
  "gemini_key sample_upstream \<and> \<not> prompt_throws sample_repoData \<and>
   fetch_analysis sample_upstream sample_repoData = Responds 429 (Some quota_error) \<and>
   candidate_text quota_error = None \<and>
   generateAnalysis sample_runtime sample_upstream sample_repoData = Throws TypeError \<and>
   POST_repo sample_runtime sample_upstream sample_request =
     \<lparr>repo_status = 500, repo_body = RepoError (str ''Failed to analyze repository'')\<rparr> \<and>
   gemini_key busy_upstream \<and>
   fetch_analysis busy_upstream sample_repoData = Responds 503 (Some (candidate_body (JStr busy_text))) \<and>
   candidate_text (candidate_body (JStr busy_text)) = Some (JStr busy_text) \<and>
   match_braces busy_text = None \<and>
   generateAnalysis sample_runtime busy_upstream sample_repoData =
     Returns (JObj
       [(str ''summary'', JStr (str ''The service is busy, no analysis...'')),
        (str ''features'', JArr [JStr (str ''Feature extraction failed'')]),
        (str ''technologies'', JArr [JStr (str ''Unknown'')]),
        (str ''useCases'', JArr [JStr (str ''Use case analysis failed'')]),
        (str ''insights'', JStr (str ''Additional analysis unavailable''))])"
proof -
  have key: "gemini_key sample_upstream"
    by (simp add: sample_upstream_def)
  have prompt: "\<not> prompt_throws sample_repoData"
    by (simp add: prompt_throws_def sample_repoData_def is_array_def)
  have resp: "fetch_analysis sample_upstream sample_repoData = Responds 429 (Some quota_error)"
    by (simp add: sample_upstream_def)
  have none: "candidate_text quota_error = None"
    by code_simp
  have url: "get_prop (JObj [(str ''repoUrl'', JStr (str ''https://github.com/octo/demo''))])
      (str ''repoUrl'') = Some (JStr (str ''https://github.com/octo/demo''))"
    by (simp add: member_of_def)
  have key2: "gemini_key busy_upstream"
    by (simp add: busy_upstream_def sample_upstream_def)
  have resp2: "fetch_analysis busy_upstream sample_repoData =
      Responds 503 (Some (candidate_body (JStr busy_text)))"
    by (simp add: busy_upstream_def)
  have some: "candidate_text (candidate_body (JStr busy_text)) = Some (JStr busy_text)"
    by code_simp
  have nomatch: "match_braces busy_text = None"
    by code_simp
  have fetch2: "fetchRepoData sample_runtime sample_upstream (str ''octo'') (str ''demo'') =
      Returns sample_repoData"
    by (rule sample_fetch)
  from analysis_status_not_read [OF key prompt resp, of sample_runtime
      "JObj [(str ''repoUrl'', JStr (str ''https://github.com/octo/demo''))]"
      "str ''https://github.com/octo/demo''" "str ''octo''" "str ''demo''"]
    none url sample_match fetch2
  have first: "generateAnalysis sample_runtime sample_upstream sample_repoData = Throws TypeError \<and>
      POST_repo sample_runtime sample_upstream sample_request =
        \<lparr>repo_status = 500, repo_body = RepoError (str ''Failed to analyze repository'')\<rparr>"
    by (simp add: sample_request_def)
  have summary: "take 200 busy_text @ str ''...'' = str ''The service is busy, no analysis...''"
    by (simp add: busy_text_def str_def)
  have lang: "language sample_repoData = JStr (str ''Unknown'')"
    by (simp add: sample_repoData_def)
  from analysis_status_not_read [OF key2 prompt resp2, of sample_runtime _ _ _ _ busy_text]
    some nomatch
  have second: "generateAnalysis sample_runtime busy_upstream sample_repoData =
      Returns (JObj
        [(str ''summary'', JStr (str ''The service is busy, no analysis...'')),
         (str ''features'', JArr [JStr (str ''Feature extraction failed'')]),
         (str ''technologies'', JArr [JStr (str ''Unknown'')]),
         (str ''useCases'', JArr [JStr (str ''Use case analysis failed'')]),
         (str ''insights'', JStr (str ''Additional analysis unavailable''))])"
    by (simp add: summary lang)
  from key prompt resp none first key2 resp2 some nomatch second show ?thesis
    by blast
qed

text \<open>
  Claim C7 as stated has a status that is not ok caught and turned into the degraded
  result. With status 429 and the error body, \<open>generateAnalysis\<close> throws a TypeError
  and the route answers 500.
\<close>

theorem error_status_counterexample:
  "fetch_analysis sample_upstream sample_repoData = Responds 429 (Some quota_error) \<and>
   \<not> status_ok 429 \<and>
   fetchRepoData sample_runtime sample_upstream (str ''octo'') (str ''demo'') = Returns sample_repoData \<and>
   generateAnalysis sample_runtime sample_upstream sample_repoData = Throws TypeError \<and>
   POST_repo sample_runtime sample_upstream sample_request =
     \<lparr>repo_status = 500, repo_body = RepoError (str ''Failed to analyze repository'')\<rparr>"
  by code_simp

end
